theory Spec2Isabelle
  imports Complex_Main
begin

section \<open>The ERP backend: data model\<close>

text \<open>
  The repository is a FastAPI application over SQLAlchemy models. Every route handler
  opens a session, reads rows, mutates them and ends with \<^verbatim>\<open>db.commit()\<close>;
  an \<^verbatim>\<open>HTTPException\<close> or any other exception leaves the handler before the
  commit, and the session is closed without one, so nothing is persisted.

  The embedding:
  \<^item> a table is the list of its rows in insertion order, a row is a record with the
    columns of \<^verbatim>\<open>models.py\<close>;
  \<^item> the database is the record \<open>db\<close> of the eleven tables;
  \<^item> a handler is a function from the database and the request to
    \<open>error + (response \<times> db)\<close>: \<open>Inl\<close> is the exception that left the handler,
    \<open>Inr\<close> carries the returned value and the committed database;
  \<^item> \<^verbatim>\<open>Integer\<close> columns are \<open>int\<close>, \<^verbatim>\<open>String\<close> columns are strings, a
    nullable column is an option;
  \<^item> a \<^verbatim>\<open>Numeric\<close> column holds a decimal number, which the store keeps exactly
    and which reads in Python as a \<^verbatim>\<open>Decimal\<close>: its value is a rational.
    Arithmetic on a \<^verbatim>\<open>Decimal\<close> is not exact: Python rounds every result to the
    28 significant digits of the default context (see the section on decimal
    arithmetic);
  \<^item> a primary key is \<^verbatim>\<open>Column(UUID, primary_key=True, default=uuid.uuid4)\<close>.
    SQLAlchemy runs such a column default when the row is inserted (at
    \<^verbatim>\<open>flush\<close> or \<^verbatim>\<open>commit\<close>), not when the Python object is
    constructed: the attribute of a freshly constructed object reads \<^verbatim>\<open>None\<close>.
    A primary key is therefore a \<open>uuid option\<close>, \<open>None\<close> on an object that has
    not been flushed. The random UUID drawn at the insert is the counter
    \<open>next_uuid\<close> of the database, so that it is fresh.

  Left out: the read-only \<^verbatim>\<open>GET\<close> routes, the columns no handler reads or
  writes after creation (timestamps and dates filled by the server, contact fields),
  the serialisation of the returned value through the \<^verbatim>\<open>response_model\<close>, and the
  constraints the database engine itself enforces (foreign keys, column ranges).
\<close>

type_synonym uuid = nat

datatype error =
    HTTPException nat string
  | RequestValidationError
  | AttributeError
  | TypeError

record StockItem =
  item_id :: "uuid option"
  item_name :: string
  item_qty :: int
  rate :: rat
  safety_stock :: "int option"

record Supplier =
  supplier_id :: "uuid option"
  supplier_name :: string
  supplier_account_balance :: rat
  discount_offered :: "rat option"

record PurchaseOrder =
  po_id :: "uuid option"
  po_supplier_id :: uuid
  po_item_id :: uuid
  po_qty_ordered :: int
  po_final_price_per_item :: "rat option"
  po_status :: string

record Acknowledgement =
  ack_id :: "uuid option"
  ack_po_id :: uuid
  ack_final_price_per_item :: "rat option"
  ack_status :: string
  ack_is_final :: bool
  ack_version :: int

record DeliveryInbound =
  delivery_inbound_id :: "uuid option"
  di_po_id :: uuid
  actual_date_of_delivery :: "nat option"
  di_status :: string

record Bill =
  bill_id :: "uuid option"
  bill_po_id :: uuid
  bill_ack_id :: "uuid option"
  bill_payment_status :: string
  payment_reference :: "string option"
  paid_at :: "nat option"

record Client =
  client_id :: "uuid option"
  client_name :: string
  client_account_balance :: rat
  applicable_discount_rate :: rat

record Quote =
  quote_id :: "uuid option"
  q_client_id :: uuid
  q_item_id :: uuid
  order_qty :: int
  q_final_price_per_item :: rat
  q_status :: string
  q_version :: int
  q_is_final :: bool
  superseded_by :: "uuid option"

record SalesOrder =
  so_id :: "uuid option"
  so_client_id :: uuid
  so_quote_id :: "uuid option"
  so_item_id :: uuid
  so_qty_ordered :: int
  so_final_price_per_item :: rat
  order_status :: string
  so_invoice_id :: "uuid option"

record DeliveryOutbound =
  delivery_outbound_id :: "uuid option"
  do_so_id :: uuid
  delivered_qty :: int
  date_of_delivery :: nat
  do_status :: string

record Invoice =
  invoice_id :: "uuid option"
  inv_so_id :: "uuid option"
  inv_quote_id :: "uuid option"
  inv_payment_status :: string
  voided :: bool

record db =
  stock_items :: "StockItem list"
  suppliers :: "Supplier list"
  purchase_orders :: "PurchaseOrder list"
  acknowledgements :: "Acknowledgement list"
  delivery_inbound :: "DeliveryInbound list"
  bills :: "Bill list"
  clients :: "Client list"
  quotes :: "Quote list"
  sales_orders :: "SalesOrder list"
  delivery_outbound :: "DeliveryOutbound list"
  invoices :: "Invoice list"
  next_uuid :: uuid

definition empty_db :: db where
  "empty_db = \<lparr>stock_items = [], suppliers = [], purchase_orders = [],
     acknowledgements = [], delivery_inbound = [], bills = [], clients = [],
     quotes = [], sales_orders = [], delivery_outbound = [], invoices = [],
     next_uuid = 0\<rparr>"

subsection \<open>Session primitives\<close>

text \<open>
  \<^verbatim>\<open>query(...).filter(...).first()\<close> is \<^const>\<open>find\<close>. Assigning to attributes of
  the object that \<^verbatim>\<open>first()\<close> returned changes that one row: \<open>modify_first\<close>.
  A bulk \<^verbatim>\<open>query(...).filter(...).update({...})\<close> is a \<^const>\<open>map\<close> over the table.
\<close>

fun modify_first :: "('a \<Rightarrow> bool) \<Rightarrow> ('a \<Rightarrow> 'a) \<Rightarrow> 'a list \<Rightarrow> 'a list" where
  "modify_first P f [] = []"
| "modify_first P f (x # xs) = (if P x then f x # xs else x # modify_first P f xs)"

subsection \<open>Decimal arithmetic\<close>

text \<open>
  The balances are \<^verbatim>\<open>Numeric\<close> columns, so \<^verbatim>\<open>account_balance += amount\<close> and
  \<^verbatim>\<open>qty_ordered * final_price_per_item\<close> are operations of Python's
  \<^verbatim>\<open>decimal.Decimal\<close> (an \<^verbatim>\<open>int\<close> operand is converted exactly). In the default
  context (\<^verbatim>\<open>prec=28\<close>, \<^verbatim>\<open>ROUND_HALF_EVEN\<close>) the result of an operation is the
  exact result rounded to 28 significant digits, a tie going to the even last digit.

  \<open>pow10 k\<close> is \<open>10\<^sup>k\<close> for an integer \<open>k\<close>; \<open>ilog10 n\<close> is the number of decimal
  digits of \<open>n \<ge> 1\<close> less one; \<open>adjusted x\<close> is the exponent of the leading digit of
  \<open>x \<noteq> 0\<close>, the \<open>e\<close> with \<open>pow10 e \<le> \<bar>x\<bar>\<close> and \<open>\<bar>x\<bar> < pow10 (e + 1)\<close> (the quotient of a numerator of
  \<open>i + 1\<close> digits by a denominator of \<open>j + 1\<close> digits has \<open>e = i - j\<close> or
  \<open>e = i - j - 1\<close>); \<open>round28\<close> rounds to the 28 digits from there. The limits of the
  exponent range of the context are left out.
\<close>

definition pow10 :: "int \<Rightarrow> rat" where
  "pow10 k = (if 0 \<le> k then 10 ^ nat k else 1 / 10 ^ nat (- k))"

function ilog10 :: "int \<Rightarrow> int" where
  "ilog10 n = (if n < 10 then 0 else 1 + ilog10 (n div 10))"
  by pat_completeness auto
termination
  by (relation "measure nat") auto

definition adjusted :: "rat \<Rightarrow> int" where
  "adjusted x =
     (let (a, b) = quotient_of \<bar>x\<bar>;
          d = ilog10 a - ilog10 b
      in if pow10 d \<le> \<bar>x\<bar> then d else d - 1)"

definition round_half_even :: "rat \<Rightarrow> int" where
  "round_half_even m =
     (let f = \<lfloor>m\<rfloor>; d = m - of_int f
      in if d < 1 / 2 then f else if 1 / 2 < d then f + 1 else if even f then f else f + 1)"

definition round28 :: "rat \<Rightarrow> rat" where
  "round28 x =
     (if x = 0 then 0
      else let scale = pow10 (adjusted x - 27)
           in of_int (round_half_even (x / scale)) * scale)"

definition decimal_add :: "rat \<Rightarrow> rat \<Rightarrow> rat" where
  "decimal_add x y = round28 (x + y)"

definition decimal_sub :: "rat \<Rightarrow> rat \<Rightarrow> rat" where
  "decimal_sub x y = round28 (x - y)"

definition decimal_mul :: "rat \<Rightarrow> rat \<Rightarrow> rat" where
  "decimal_mul x y = round28 (x * y)"

text \<open>\<^verbatim>\<open>str.lower()\<close> on ASCII text.\<close>

definition lower_char :: "char \<Rightarrow> char" where
  "lower_char c =
     (let n = (of_char c :: nat) in if 65 \<le> n \<and> n \<le> 90 then char_of (n + 32) else c)"

definition lower :: "string \<Rightarrow> string" where
  "lower s = map lower_char s"

section \<open>Inventory routes\<close>

text \<open>
  \<^verbatim>\<open>ItemCreate\<close>: \<^verbatim>\<open>item_name\<close> of length at least 1, \<^verbatim>\<open>item_qty\<close>
  \<^verbatim>\<open>conint(ge=0)\<close>, \<^verbatim>\<open>rate\<close> \<^verbatim>\<open>confloat(gt=0)\<close>, \<^verbatim>\<open>safety_stock\<close>
  optional \<^verbatim>\<open>conint(ge=0)\<close>. FastAPI validates the body before the handler runs.
\<close>

definition valid_ItemCreate :: "string \<Rightarrow> int \<Rightarrow> rat \<Rightarrow> int option \<Rightarrow> bool" where
  "valid_ItemCreate name qty r ss =
     (1 \<le> length name \<and> 0 \<le> qty \<and> 0 < r \<and> (case ss of None \<Rightarrow> True | Some n \<Rightarrow> 0 \<le> n))"

definition create_inventory_item ::
  "db \<Rightarrow> string \<Rightarrow> int \<Rightarrow> rat \<Rightarrow> int option \<Rightarrow> error + (StockItem \<times> db)" where
  "create_inventory_item s name qty r ss =
     (if \<not> valid_ItemCreate name qty r ss then Inl RequestValidationError
      else
        let new_item = \<lparr>item_id = Some (next_uuid s), item_name = name, item_qty = qty,
                          rate = r, safety_stock = ss\<rparr>
        in Inr (new_item,
                s\<lparr>stock_items := stock_items s @ [new_item], next_uuid := next_uuid s + 1\<rparr>))"

datatype AdjustmentType = increase | decrease

text \<open>
  \<^verbatim>\<open>StockAdjustmentCreate\<close>: \<^verbatim>\<open>quantity\<close> is \<^verbatim>\<open>conint(gt=0)\<close>, \<^verbatim>\<open>reason\<close> has
  at least 3 characters. The handler returns the new quantity.
\<close>

definition valid_StockAdjustmentCreate :: "int \<Rightarrow> string \<Rightarrow> bool" where
  "valid_StockAdjustmentCreate quantity reason = (0 < quantity \<and> 3 \<le> length reason)"

definition adjust_inventory_item ::
  "db \<Rightarrow> uuid \<Rightarrow> AdjustmentType \<Rightarrow> int \<Rightarrow> string \<Rightarrow> error + (int \<times> db)" where
  "adjust_inventory_item s iid adjustment_type quantity reason =
     (if \<not> valid_StockAdjustmentCreate quantity reason then Inl RequestValidationError
      else
        case find (\<lambda>i. item_id i = Some iid) (stock_items s) of
          None \<Rightarrow> Inl (HTTPException 404 ''Item not found'')
        | Some item \<Rightarrow>
            let current_qty = item_qty item;
                delta = (if adjustment_type = increase then quantity else - quantity);
                new_qty = current_qty + delta
            in if new_qty < 0
               then Inl (HTTPException 400 ''Stock adjustment would result in negative inventory'')
               else Inr (new_qty,
                         s\<lparr>stock_items :=
                             modify_first (\<lambda>i. item_id i = Some iid)
                               (\<lambda>i. i\<lparr>item_qty := new_qty\<rparr>) (stock_items s)\<rparr>))"

section \<open>Procurement routes\<close>

text \<open>
  \<^verbatim>\<open>SupplierCreate\<close>: the name has at least 2 characters, the discount is optional
  and between 0 and 100. The balance starts at the column default 0.
\<close>

definition valid_SupplierCreate :: "string \<Rightarrow> rat option \<Rightarrow> bool" where
  "valid_SupplierCreate name disc =
     (2 \<le> length name \<and> (case disc of None \<Rightarrow> True | Some d \<Rightarrow> 0 \<le> d \<and> d \<le> 100))"

definition create_supplier :: "db \<Rightarrow> string \<Rightarrow> rat option \<Rightarrow> error + (Supplier \<times> db)" where
  "create_supplier s name disc =
     (if \<not> valid_SupplierCreate name disc then Inl RequestValidationError
      else
        let supplier = \<lparr>supplier_id = Some (next_uuid s), supplier_name = name,
                          supplier_account_balance = 0, discount_offered = disc\<rparr>
        in Inr (supplier,
                s\<lparr>suppliers := suppliers s @ [supplier], next_uuid := next_uuid s + 1\<rparr>))"

text \<open>\<^verbatim>\<open>PurchaseOrderCreate\<close>: quantity and expected price are strictly positive.\<close>

definition valid_PurchaseOrderCreate :: "int \<Rightarrow> rat \<Rightarrow> bool" where
  "valid_PurchaseOrderCreate qty price = (0 < qty \<and> 0 < price)"

definition create_po ::
  "db \<Rightarrow> uuid \<Rightarrow> uuid \<Rightarrow> int \<Rightarrow> rat \<Rightarrow> error + (PurchaseOrder \<times> db)" where
  "create_po s sid iid qty expected_price =
     (if \<not> valid_PurchaseOrderCreate qty expected_price then Inl RequestValidationError
      else
        case find (\<lambda>x. supplier_id x = Some sid) (suppliers s) of
          None \<Rightarrow> Inl (HTTPException 400 ''Supplier not found'')
        | Some supplier \<Rightarrow>
           (case find (\<lambda>i. item_id i = Some iid) (stock_items s) of
              None \<Rightarrow> Inl (HTTPException 400 ''Stock item not found'')
            | Some item \<Rightarrow>
                let po = \<lparr>po_id = Some (next_uuid s), po_supplier_id = sid, po_item_id = iid,
                            po_qty_ordered = qty, po_final_price_per_item = Some expected_price,
                            po_status = ''pending_price_negotiation''\<rparr>
                in Inr (po, s\<lparr>purchase_orders := purchase_orders s @ [po],
                               next_uuid := next_uuid s + 1\<rparr>)))"

text \<open>
  \<^verbatim>\<open>order_by(Acknowledgement.version.desc()).first()\<close>: the first row of the table
  sorted by descending version. Only its version is read.
\<close>

definition first_by_version_desc :: "Acknowledgement list \<Rightarrow> Acknowledgement option" where
  "first_by_version_desc xs =
     (case sort_key (\<lambda>a. - ack_version a) xs of [] \<Rightarrow> None | a # _ \<Rightarrow> Some a)"

text \<open>
  \<^verbatim>\<open>POAcknowledgeRequest\<close>: \<^verbatim>\<open>final_price_per_item\<close> is
  \<^verbatim>\<open>Optional[confloat(gt=0)] = None\<close>, \<^verbatim>\<open>action\<close> is any string.

  The new \<^verbatim>\<open>Acknowledgement\<close> object is constructed before the bulk update and
  added to the session after it, so its \<^verbatim>\<open>ack_id\<close> is \<^verbatim>\<open>None\<close> in the filter
  \<^verbatim>\<open>Acknowledgement.ack_id != ack.ack_id\<close>, which every stored row of the order
  passes. In the accepted branch two rows are inserted at the commit, the delivery and
  the acknowledgement.
\<close>

definition valid_POAcknowledgeRequest :: "rat option \<Rightarrow> bool" where
  "valid_POAcknowledgeRequest price = (case price of None \<Rightarrow> True | Some p \<Rightarrow> 0 < p)"

definition acknowledge_po ::
  "db \<Rightarrow> uuid \<Rightarrow> rat option \<Rightarrow> string \<Rightarrow> error + (Acknowledgement \<times> db)" where
  "acknowledge_po s pid price action_raw =
     (if \<not> valid_POAcknowledgeRequest price then Inl RequestValidationError
      else
        case find (\<lambda>p. po_id p = Some pid) (purchase_orders s) of
          None \<Rightarrow> Inl (HTTPException 404 ''PO not found'')
        | Some po \<Rightarrow>
            if po_status po \<noteq> ''pending_price_negotiation''
            then Inl (HTTPException 400 ''PO cannot be acknowledged in its current state'')
            else
              let last_ack = first_by_version_desc
                               (filter (\<lambda>a. ack_po_id a = pid) (acknowledgements s));
                  next_version = (case last_ack of None \<Rightarrow> 1 | Some a \<Rightarrow> ack_version a + 1);
                  action = lower action_raw
              in if action \<notin> set [''accepted'', ''rejected'', ''revised'']
                 then Inl (HTTPException 400 ''Invalid ACK action'')
                 else
                   let ack = \<lparr>ack_id = None, ack_po_id = pid, ack_final_price_per_item = price,
                                ack_status = ''proposed'', ack_is_final = False,
                                ack_version = next_version\<rparr>
                   in if action = ''accepted'' then
                        let ack1 = ack\<lparr>ack_status := ''accepted'', ack_is_final := True\<rparr>;
                            acks1 = map (\<lambda>a. if ack_po_id a = pid \<and> ack_id a \<noteq> ack_id ack1
                                               then a\<lparr>ack_status := ''superseded'',
                                                      ack_is_final := False\<rparr>
                                               else a) (acknowledgements s);
                            pos1 = modify_first (\<lambda>p. po_id p = Some pid)
                                     (\<lambda>p. p\<lparr>po_final_price_per_item := price,
                                             po_status := ''acknowledged''\<rparr>)
                                     (purchase_orders s);
                            delivery = \<lparr>delivery_inbound_id = Some (next_uuid s), di_po_id = pid,
                                          actual_date_of_delivery = None,
                                          di_status = ''in_transit''\<rparr>;
                            ack2 = ack1\<lparr>ack_id := Some (next_uuid s + 1)\<rparr>
                        in Inr (ack2,
                                s\<lparr>acknowledgements := acks1 @ [ack2],
                                  purchase_orders := pos1,
                                  delivery_inbound := delivery_inbound s @ [delivery],
                                  next_uuid := next_uuid s + 2\<rparr>)
                      else
                        let ack1 = (if action = ''rejected''
                                    then ack\<lparr>ack_status := ''rejected''\<rparr>
                                    else ack\<lparr>ack_status := ''proposed''\<rparr>);
                            ack2 = ack1\<lparr>ack_id := Some (next_uuid s)\<rparr>
                        in Inr (ack2,
                                s\<lparr>acknowledgements := acknowledgements s @ [ack2],
                                  next_uuid := next_uuid s + 1\<rparr>))"

text \<open>
  \<^verbatim>\<open>receive_po\<close> returns the id of the delivery it recorded and the new quantity of
  the item. \<^verbatim>\<open>POReceiveRequest\<close> carries the date only.
\<close>

definition receive_po :: "db \<Rightarrow> uuid \<Rightarrow> nat \<Rightarrow> error + ((uuid option \<times> int) \<times> db)" where
  "receive_po s pid actual_date =
     (case find (\<lambda>p. po_id p = Some pid) (purchase_orders s) of
        None \<Rightarrow> Inl (HTTPException 404 ''PO not found'')
      | Some po \<Rightarrow>
          if po_status po \<noteq> ''acknowledged''
          then Inl (HTTPException 400 ''PO must be acknowledged before receiving goods'')
          else
            (case find (\<lambda>i. item_id i = Some (po_item_id po)) (stock_items s) of
              None \<Rightarrow> Inl (HTTPException 404 ''Stock item not found'')
            | Some item \<Rightarrow>
               (case find (\<lambda>d. di_po_id d = pid \<and> di_status d = ''received'')
                          (delivery_inbound s) of
                  Some existing_delivery \<Rightarrow>
                    Inl (HTTPException 400 ''Goods already received for this PO'')
                | None \<Rightarrow>
                    let delivery = \<lparr>delivery_inbound_id = Some (next_uuid s), di_po_id = pid,
                                      actual_date_of_delivery = Some actual_date,
                                      di_status = ''received''\<rparr>;
                        new_qty = item_qty item + po_qty_ordered po
                    in Inr ((delivery_inbound_id delivery, new_qty),
                            s\<lparr>stock_items :=
                                modify_first (\<lambda>i. item_id i = Some (po_item_id po))
                                  (\<lambda>i. i\<lparr>item_qty := new_qty\<rparr>) (stock_items s),
                              purchase_orders :=
                                modify_first (\<lambda>p. po_id p = Some pid)
                                  (\<lambda>p. p\<lparr>po_status := ''received''\<rparr>) (purchase_orders s),
                              delivery_inbound := delivery_inbound s @ [delivery],
                              next_uuid := next_uuid s + 1\<rparr>))))"

text \<open>
  \<^verbatim>\<open>create_bill\<close>: the product \<^verbatim>\<open>po.qty_ordered * final_ack.final_price_per_item\<close>
  raises \<^verbatim>\<open>TypeError\<close> when the price is \<^verbatim>\<open>None\<close>.
\<close>

definition create_bill :: "db \<Rightarrow> uuid \<Rightarrow> error + (Bill \<times> db)" where
  "create_bill s pid =
     (case find (\<lambda>p. po_id p = Some pid) (purchase_orders s) of
        None \<Rightarrow> Inl (HTTPException 404 ''PO not found'')
      | Some po \<Rightarrow>
          if po_status po \<noteq> ''received''
          then Inl (HTTPException 400 ''Bill can only be created after PO is received'')
          else
            (case find (\<lambda>b. bill_po_id b = pid) (bills s) of
              Some existing_bill \<Rightarrow> Inl (HTTPException 400 ''Bill already exists for this PO'')
            | None \<Rightarrow>
               (case find (\<lambda>a. ack_po_id a = pid \<and> ack_is_final a = True) (acknowledgements s) of
                  None \<Rightarrow> Inl (HTTPException 400 ''Final ACK not found for this PO'')
                | Some final_ack \<Rightarrow>
                   (case find (\<lambda>x. supplier_id x = Some (po_supplier_id po)) (suppliers s) of
                      None \<Rightarrow> Inl (HTTPException 404 ''Supplier not found'')
                    | Some supplier \<Rightarrow>
                       (case ack_final_price_per_item final_ack of
                          None \<Rightarrow> Inl TypeError
                        | Some price \<Rightarrow>
                            let bill = \<lparr>bill_id = Some (next_uuid s), bill_po_id = pid,
                                          bill_ack_id = ack_id final_ack,
                                          bill_payment_status = ''pending'',
                                          payment_reference = None, paid_at = None\<rparr>;
                                bill_amount = decimal_mul (of_int (po_qty_ordered po)) price
                            in Inr (bill,
                                    s\<lparr>suppliers :=
                                        modify_first
                                          (\<lambda>x. supplier_id x = Some (po_supplier_id po))
                                          (\<lambda>x. x\<lparr>supplier_account_balance :=
                                                    decimal_add (supplier_account_balance x)
                                                      bill_amount\<rparr>)
                                          (suppliers s),
                                      bills := bills s @ [bill],
                                      next_uuid := next_uuid s + 1\<rparr>))))))"

text \<open>
  \<^verbatim>\<open>pay_bill\<close>: \<^verbatim>\<open>BillPaymentRequest.payment_reference\<close> has at least 3
  characters; \<open>now\<close> is the value of \<^verbatim>\<open>func.now()\<close>. Reading an attribute of a
  row that \<^verbatim>\<open>first()\<close> did not find raises \<^verbatim>\<open>AttributeError\<close>. The handler
  returns the bill as it is after the payment.
\<close>

definition valid_BillPaymentRequest :: "string \<Rightarrow> bool" where
  "valid_BillPaymentRequest reference = (3 \<le> length reference)"

definition pay_bill :: "db \<Rightarrow> uuid \<Rightarrow> string \<Rightarrow> nat \<Rightarrow> error + (Bill \<times> db)" where
  "pay_bill s bid reference now =
     (if \<not> valid_BillPaymentRequest reference then Inl RequestValidationError
      else
        case find (\<lambda>b. bill_id b = Some bid) (bills s) of
          None \<Rightarrow> Inl (HTTPException 404 ''Bill not found'')
        | Some bill \<Rightarrow>
            if bill_payment_status bill = ''paid''
            then Inl (HTTPException 400 ''Bill already paid'')
            else
              (case find (\<lambda>p. po_id p = Some (bill_po_id bill)) (purchase_orders s) of
                None \<Rightarrow> Inl AttributeError
              | Some po \<Rightarrow>
                 (case find (\<lambda>a. ack_id a = bill_ack_id bill) (acknowledgements s) of
                    None \<Rightarrow> Inl AttributeError
                  | Some final_ack \<Rightarrow>
                     (case ack_final_price_per_item final_ack of
                        None \<Rightarrow> Inl TypeError
                      | Some price \<Rightarrow>
                         (case find (\<lambda>x. supplier_id x = Some (po_supplier_id po)) (suppliers s) of
                            None \<Rightarrow> Inl AttributeError
                          | Some supplier \<Rightarrow>
                              let bill_amount = decimal_mul (of_int (po_qty_ordered po)) price;
                                  bill1 = bill\<lparr>bill_payment_status := ''paid'',
                                               payment_reference := Some reference,
                                               paid_at := Some now\<rparr>
                              in Inr (bill1,
                                      s\<lparr>bills :=
                                          modify_first (\<lambda>b. bill_id b = Some bid)
                                            (\<lambda>b. b\<lparr>bill_payment_status := ''paid'',
                                                    payment_reference := Some reference,
                                                    paid_at := Some now\<rparr>) (bills s),
                                        suppliers :=
                                          modify_first
                                            (\<lambda>x. supplier_id x = Some (po_supplier_id po))
                                            (\<lambda>x. x\<lparr>supplier_account_balance :=
                                                      decimal_sub (supplier_account_balance x)
                                                        bill_amount\<rparr>)
                                            (suppliers s)\<rparr>))))))"

section \<open>Sales routes\<close>

text \<open>\<^verbatim>\<open>ClientCreate\<close> has no constraint; balance and discount start at 0.\<close>

definition create_client :: "db \<Rightarrow> string \<Rightarrow> error + (Client \<times> db)" where
  "create_client s name =
     (let client = \<lparr>client_id = Some (next_uuid s), client_name = name,
                     client_account_balance = 0, applicable_discount_rate = 0\<rparr>
      in Inr (client, s\<lparr>clients := clients s @ [client], next_uuid := next_uuid s + 1\<rparr>))"

text \<open>
  \<^verbatim>\<open>QuoteCreate\<close>: quantity and price strictly positive. The other columns take
  their defaults: status \<^verbatim>\<open>sent\<close>, version 1, not final, no successor.
\<close>

definition valid_QuoteCreate :: "int \<Rightarrow> rat \<Rightarrow> bool" where
  "valid_QuoteCreate qty price = (0 < qty \<and> 0 < price)"

definition create_quote :: "db \<Rightarrow> uuid \<Rightarrow> uuid \<Rightarrow> int \<Rightarrow> rat \<Rightarrow> error + (Quote \<times> db)" where
  "create_quote s cid iid qty price =
     (if \<not> valid_QuoteCreate qty price then Inl RequestValidationError
      else
        let quote = \<lparr>quote_id = Some (next_uuid s), q_client_id = cid, q_item_id = iid,
                       order_qty = qty, q_final_price_per_item = price, q_status = ''sent'',
                       q_version = 1, q_is_final = False, superseded_by = None\<rparr>
        in Inr (quote, s\<lparr>quotes := quotes s @ [quote], next_uuid := next_uuid s + 1\<rparr>))"

text \<open>
  \<^verbatim>\<open>revise_quote\<close>: \<^verbatim>\<open>QuoteReviseRequest.revised_price_per_item\<close> is strictly
  positive. The handler constructs \<^verbatim>\<open>new\<close>, then assigns
  \<^verbatim>\<open>old.superseded_by = new.quote_id\<close>, and only then adds \<^verbatim>\<open>new\<close> to the
  session: the assignment reads the key of an object that has not been flushed. The
  key is drawn at the commit and \<^verbatim>\<open>db.refresh(new)\<close> loads it into the returned
  object.
\<close>

definition valid_QuoteReviseRequest :: "rat \<Rightarrow> bool" where
  "valid_QuoteReviseRequest price = (0 < price)"

definition revise_quote :: "db \<Rightarrow> uuid \<Rightarrow> rat \<Rightarrow> error + (Quote \<times> db)" where
  "revise_quote s qid revised_price =
     (if \<not> valid_QuoteReviseRequest revised_price then Inl RequestValidationError
      else
        case find (\<lambda>q. quote_id q = Some qid) (quotes s) of
          None \<Rightarrow> Inl (HTTPException 404 ''Quote not found'')
        | Some old \<Rightarrow>
            if q_is_final old then Inl (HTTPException 400 ''Final quote cannot be revised'')
            else
              let new = \<lparr>quote_id = None, q_client_id = q_client_id old,
                           q_item_id = q_item_id old, order_qty = order_qty old,
                           q_final_price_per_item = revised_price, q_status = ''revised'',
                           q_version = q_version old + 1, q_is_final = False,
                           superseded_by = None\<rparr>;
                  quotes1 = modify_first (\<lambda>q. quote_id q = Some qid)
                              (\<lambda>q. q\<lparr>q_status := ''superseded'',
                                      superseded_by := quote_id new\<rparr>) (quotes s);
                  new1 = new\<lparr>quote_id := Some (next_uuid s)\<rparr>
              in Inr (new1, s\<lparr>quotes := quotes1 @ [new1], next_uuid := next_uuid s + 1\<rparr>))"

text \<open>
  \<^verbatim>\<open>accept_quote\<close> returns the ids of the quote and of the sales order. The sales
  order and the invoice are flushed one after the other, so each has its key when the
  next statement reads it.
\<close>

definition accept_quote :: "db \<Rightarrow> uuid \<Rightarrow> error + ((uuid option \<times> uuid option) \<times> db)" where
  "accept_quote s qid =
     (case find (\<lambda>q. quote_id q = Some qid) (quotes s) of
        None \<Rightarrow> Inl (HTTPException 404 ''Quote not found'')
      | Some quote \<Rightarrow>
          if q_status quote = ''accepted'' then Inl (HTTPException 400 ''Quote already accepted'')
          else if q_is_final quote then Inl (HTTPException 400 ''Quote already finalized'')
          else
            (case find (\<lambda>i. item_id i = Some (q_item_id quote)) (stock_items s) of
              None \<Rightarrow> Inl (HTTPException 400 ''Insufficient inventory'')
            | Some item \<Rightarrow>
                if item_qty item < order_qty quote
                then Inl (HTTPException 400 ''Insufficient inventory'')
                else
                  let quotes1 = map (\<lambda>q. if q_client_id q = q_client_id quote \<and>
                                             q_item_id q = q_item_id quote \<and>
                                             q_is_final q = False \<and>
                                             quote_id q \<noteq> quote_id quote
                                          then q\<lparr>q_status := ''superseded''\<rparr> else q) (quotes s);
                      quotes2 = modify_first (\<lambda>q. quote_id q = Some qid)
                                  (\<lambda>q. q\<lparr>q_is_final := True, q_status := ''accepted''\<rparr>) quotes1;
                      items1 = modify_first (\<lambda>i. item_id i = Some (q_item_id quote))
                                 (\<lambda>i. i\<lparr>item_qty := item_qty i - order_qty quote\<rparr>)
                                 (stock_items s);
                      so = \<lparr>so_id = Some (next_uuid s), so_client_id = q_client_id quote,
                             so_quote_id = quote_id quote, so_item_id = q_item_id quote,
                             so_qty_ordered = order_qty quote,
                             so_final_price_per_item = q_final_price_per_item quote,
                             order_status = ''confirmed'', so_invoice_id = None\<rparr>;
                      invoice = \<lparr>invoice_id = Some (next_uuid s + 1), inv_so_id = so_id so,
                                  inv_quote_id = quote_id quote,
                                  inv_payment_status = ''pending'', voided = False\<rparr>;
                      so1 = so\<lparr>so_invoice_id := invoice_id invoice\<rparr>
                  in (case find (\<lambda>c. client_id c = Some (so_client_id so1)) (clients s) of
                       None \<Rightarrow> Inl AttributeError
                     | Some client \<Rightarrow>
                         Inr ((quote_id quote, so_id so1),
                              s\<lparr>quotes := quotes2,
                                stock_items := items1,
                                sales_orders := sales_orders s @ [so1],
                                invoices := invoices s @ [invoice],
                                clients :=
                                  modify_first (\<lambda>c. client_id c = Some (so_client_id so1))
                                    (\<lambda>c. c\<lparr>client_account_balance :=
                                              decimal_add (client_account_balance c)
                                                (decimal_mul (of_int (so_qty_ordered so1))
                                                   (so_final_price_per_item so1))\<rparr>)
                                    (clients s),
                                next_uuid := next_uuid s + 2\<rparr>))))"

text \<open>
  \<^verbatim>\<open>SalesOrderCreate\<close>: quantity \<^verbatim>\<open>conint(gt=0)\<close>, price \<^verbatim>\<open>conint(gt=0)\<close>.
  The price on the new order object is still the \<^verbatim>\<open>int\<close> of the payload when the
  balance is updated, so the product is one of integers.
\<close>

definition valid_SalesOrderCreate :: "int \<Rightarrow> int \<Rightarrow> bool" where
  "valid_SalesOrderCreate qty price = (0 < qty \<and> 0 < price)"

definition create_sales_order ::
  "db \<Rightarrow> uuid \<Rightarrow> uuid \<Rightarrow> int \<Rightarrow> int \<Rightarrow> error + (SalesOrder \<times> db)" where
  "create_sales_order s cid iid qty price =
     (if \<not> valid_SalesOrderCreate qty price then Inl RequestValidationError
      else
        case find (\<lambda>i. item_id i = Some iid) (stock_items s) of
          None \<Rightarrow> Inl (HTTPException 400 ''Insufficient inventory'')
        | Some item \<Rightarrow>
            if item_qty item < qty then Inl (HTTPException 400 ''Insufficient inventory'')
            else
              let items1 = modify_first (\<lambda>i. item_id i = Some iid)
                             (\<lambda>i. i\<lparr>item_qty := item_qty i - qty\<rparr>) (stock_items s);
                  so = \<lparr>so_id = Some (next_uuid s), so_client_id = cid, so_quote_id = None,
                         so_item_id = iid, so_qty_ordered = qty,
                         so_final_price_per_item = of_int price,
                         order_status = ''confirmed'', so_invoice_id = None\<rparr>;
                  invoice = \<lparr>invoice_id = Some (next_uuid s + 1), inv_so_id = so_id so,
                              inv_quote_id = None, inv_payment_status = ''pending'',
                              voided = False\<rparr>;
                  so1 = so\<lparr>so_invoice_id := invoice_id invoice\<rparr>
              in (case find (\<lambda>c. client_id c = Some (so_client_id so1)) (clients s) of
                   None \<Rightarrow> Inl AttributeError
                 | Some client \<Rightarrow>
                     Inr (so1,
                          s\<lparr>stock_items := items1,
                            sales_orders := sales_orders s @ [so1],
                            invoices := invoices s @ [invoice],
                            clients :=
                              modify_first (\<lambda>c. client_id c = Some (so_client_id so1))
                                (\<lambda>c. c\<lparr>client_account_balance :=
                                          decimal_add (client_account_balance c)
                                            (of_int (so_qty_ordered so1 * price))\<rparr>)
                                (clients s),
                            next_uuid := next_uuid s + 2\<rparr>)))"

text \<open>
  \<^verbatim>\<open>coalesce(sum(delivered_qty), 0)\<close> over the deliveries of one sales order.
\<close>

definition total_delivered :: "db \<Rightarrow> uuid \<Rightarrow> int" where
  "total_delivered s sid =
     sum_list (map delivered_qty (filter (\<lambda>d. do_so_id d = sid) (delivery_outbound s)))"

text \<open>\<^verbatim>\<open>DeliveryOutboundRequest\<close>: a date and \<^verbatim>\<open>delivered_qty\<close> \<^verbatim>\<open>conint(gt=0)\<close>.\<close>

definition valid_DeliveryOutboundRequest :: "int \<Rightarrow> bool" where
  "valid_DeliveryOutboundRequest qty = (0 < qty)"

definition deliver_sales_order ::
  "db \<Rightarrow> uuid \<Rightarrow> nat \<Rightarrow> int \<Rightarrow> error + (DeliveryOutbound \<times> db)" where
  "deliver_sales_order s sid date qty =
     (if \<not> valid_DeliveryOutboundRequest qty then Inl RequestValidationError
      else
        case find (\<lambda>x. so_id x = Some sid) (sales_orders s) of
          None \<Rightarrow> Inl (HTTPException 404 ''SO not found'')
        | Some so \<Rightarrow>
            if order_status so = ''cancelled''
            then Inl (HTTPException 400 ''Cancelled order cannot be delivered'')
            else if order_status so = ''delivered''
            then Inl (HTTPException 400 ''Order already fully delivered'')
            else
              if total_delivered s sid + qty > so_qty_ordered so
              then Inl (HTTPException 400 ''Delivered quantity exceeds ordered quantity'')
              else
                let delivery = \<lparr>delivery_outbound_id = Some (next_uuid s), do_so_id = sid,
                                  delivered_qty = qty, date_of_delivery = date,
                                  do_status = ''delivered''\<rparr>;
                    new_status = (if total_delivered s sid + qty < so_qty_ordered so
                                  then ''partially_delivered'' else ''delivered'')
                in Inr (delivery,
                        s\<lparr>sales_orders :=
                            modify_first (\<lambda>x. so_id x = Some sid)
                              (\<lambda>x. x\<lparr>order_status := new_status\<rparr>) (sales_orders s),
                          delivery_outbound := delivery_outbound s @ [delivery],
                          next_uuid := next_uuid s + 1\<rparr>))"

text \<open>
  \<^verbatim>\<open>cancel_sales_order\<close>: \<^verbatim>\<open>item.item_qty += so.qty_ordered\<close> raises
  \<^verbatim>\<open>AttributeError\<close> when the item is not found. The handler returns a message.
\<close>

definition cancel_sales_order :: "db \<Rightarrow> uuid \<Rightarrow> error + (string \<times> db)" where
  "cancel_sales_order s sid =
     (case find (\<lambda>x. so_id x = Some sid) (sales_orders s) of
        None \<Rightarrow> Inl (HTTPException 404 ''SO not found'')
      | Some so \<Rightarrow>
          if order_status so \<in> set [''delivered'', ''partially_delivered'']
          then Inl (HTTPException 400 ''Cannot cancel delivered order'')
          else
            (case find (\<lambda>i. item_id i = Some (so_item_id so)) (stock_items s) of
              None \<Rightarrow> Inl AttributeError
            | Some item \<Rightarrow>
                Inr (''Sales Order cancelled'',
                     s\<lparr>stock_items :=
                         modify_first (\<lambda>i. item_id i = Some (so_item_id so))
                           (\<lambda>i. i\<lparr>item_qty := item_qty i + so_qty_ordered so\<rparr>)
                           (stock_items s),
                       sales_orders :=
                         modify_first (\<lambda>x. so_id x = Some sid)
                           (\<lambda>x. x\<lparr>order_status := ''cancelled''\<rparr>) (sales_orders s)\<rparr>)))"

definition void_invoice :: "db \<Rightarrow> uuid \<Rightarrow> error + (string \<times> db)" where
  "void_invoice s vid =
     (case find (\<lambda>v. invoice_id v = Some vid) (invoices s) of
        None \<Rightarrow> Inl (HTTPException 404 ''Invoice not found'')
      | Some invoice \<Rightarrow>
          if inv_payment_status invoice = ''paid''
          then Inl (HTTPException 400 ''Paid invoice cannot be voided'')
          else Inr (''Invoice voided'',
                    s\<lparr>invoices :=
                        modify_first (\<lambda>v. invoice_id v = Some vid)
                          (\<lambda>v. v\<lparr>voided := True, inv_payment_status := ''voided''\<rparr>)
                          (invoices s)\<rparr>))"

section \<open>Requests and runs\<close>

text \<open>
  One constructor per mutating route. \<open>step\<close> is the database after the request:
  the committed one when the handler returned, the old one when it raised.
\<close>

datatype request =
    CreateInventoryItem string int rat "int option"
  | AdjustInventoryItem uuid AdjustmentType int string
  | CreateSupplier string "rat option"
  | CreatePO uuid uuid int rat
  | AcknowledgePO uuid "rat option" string
  | ReceivePO uuid nat
  | CreateBill uuid
  | PayBill uuid string nat
  | CreateClient string
  | CreateQuote uuid uuid int rat
  | ReviseQuote uuid rat
  | AcceptQuote uuid
  | CreateSalesOrder uuid uuid int int
  | DeliverSalesOrder uuid nat int
  | CancelSalesOrder uuid
  | VoidInvoice uuid

definition committed :: "db \<Rightarrow> error + ('a \<times> db) \<Rightarrow> db" where
  "committed s res = (case res of Inl e \<Rightarrow> s | Inr (r, s') \<Rightarrow> s')"

fun step :: "db \<Rightarrow> request \<Rightarrow> db" where
  "step s (CreateInventoryItem name qty r ss) = committed s (create_inventory_item s name qty r ss)"
| "step s (AdjustInventoryItem iid ty qty reason) =
     committed s (adjust_inventory_item s iid ty qty reason)"
| "step s (CreateSupplier name disc) = committed s (create_supplier s name disc)"
| "step s (CreatePO sid iid qty price) = committed s (create_po s sid iid qty price)"
| "step s (AcknowledgePO pid price action) = committed s (acknowledge_po s pid price action)"
| "step s (ReceivePO pid date) = committed s (receive_po s pid date)"
| "step s (CreateBill pid) = committed s (create_bill s pid)"
| "step s (PayBill bid reference now) = committed s (pay_bill s bid reference now)"
| "step s (CreateClient name) = committed s (create_client s name)"
| "step s (CreateQuote cid iid qty price) = committed s (create_quote s cid iid qty price)"
| "step s (ReviseQuote qid price) = committed s (revise_quote s qid price)"
| "step s (AcceptQuote qid) = committed s (accept_quote s qid)"
| "step s (CreateSalesOrder cid iid qty price) = committed s (create_sales_order s cid iid qty price)"
| "step s (DeliverSalesOrder sid date qty) = committed s (deliver_sales_order s sid date qty)"
| "step s (CancelSalesOrder sid) = committed s (cancel_sales_order s sid)"
| "step s (VoidInvoice vid) = committed s (void_invoice s vid)"

definition run :: "db \<Rightarrow> request list \<Rightarrow> db" where
  "run s rs = foldl step s rs"
section \<open>Invariants of the database\<close>

text \<open>
  The version \<^verbatim>\<open>acknowledge_po\<close> gives to the next acknowledgement of an order:
  \<^verbatim>\<open>1 if not last_ack else last_ack.version + 1\<close>.
\<close>

definition next_version :: "db \<Rightarrow> uuid \<Rightarrow> int" where
  "next_version s pid =
     (case first_by_version_desc (filter (\<lambda>a. ack_po_id a = pid) (acknowledgements s)) of
        None \<Rightarrow> 1 | Some a \<Rightarrow> ack_version a + 1)"

text \<open>
  Quantities: no item has a negative stock, and every quantity ordered (on a purchase
  order, a quote or a sales order) is positive, as the request schemas require.
\<close>

definition qty_inv :: "db \<Rightarrow> bool" where
  "qty_inv s =
     ((\<forall>i\<in>set (stock_items s). 0 \<le> item_qty i) \<and>
      (\<forall>p\<in>set (purchase_orders s). 0 < po_qty_ordered p) \<and>
      (\<forall>q\<in>set (quotes s). 0 < order_qty q) \<and>
      (\<forall>x\<in>set (sales_orders s). 0 < so_qty_ordered x))"

text \<open>The item of every sales order is in the stock table.\<close>

definition so_item_inv :: "db \<Rightarrow> bool" where
  "so_item_inv s =
     (\<forall>x\<in>set (sales_orders s). Some (so_item_id x) \<in> item_id ` set (stock_items s))"

text \<open>
  The final acknowledgements of a purchase order, the final quotes of a client and an
  item, and the versions of the acknowledgements of a purchase order.
\<close>

definition final_acks :: "db \<Rightarrow> uuid \<Rightarrow> Acknowledgement list" where
  "final_acks s p = filter (\<lambda>a. ack_po_id a = p \<and> ack_is_final a) (acknowledgements s)"

definition final_quotes :: "db \<Rightarrow> uuid \<Rightarrow> uuid \<Rightarrow> Quote list" where
  "final_quotes s c i =
     filter (\<lambda>q. q_client_id q = c \<and> q_item_id q = i \<and> q_is_final q) (quotes s)"

definition ack_versions :: "db \<Rightarrow> uuid \<Rightarrow> int list" where
  "ack_versions s p = map ack_version (filter (\<lambda>a. ack_po_id a = p) (acknowledgements s))"

text \<open>
  The bulk update of \<^verbatim>\<open>acknowledge_po\<close> on one row, for the order \<open>pid\<close>.
\<close>

definition supersede :: "uuid \<Rightarrow> Acknowledgement \<Rightarrow> Acknowledgement" where
  "supersede pid a =
     (if ack_po_id a = pid \<and> ack_id a \<noteq> None
      then a\<lparr>ack_status := ''superseded'', ack_is_final := False\<rparr> else a)"

text \<open>
  Acknowledgements: every stored one has a key, at most one per order is final, and
  the versions within an order are distinct.
\<close>

definition ack_inv :: "db \<Rightarrow> bool" where
  "ack_inv s =
     ((\<forall>a\<in>set (acknowledgements s). ack_id a \<noteq> None) \<and>
      (\<forall>p. length (final_acks s p) \<le> 1) \<and>
      (\<forall>p. distinct (ack_versions s p)))"

text \<open>
  Primary keys: every stored row has a key, the keys were drawn before the counter
  \<open>next_uuid\<close> reached its present value, and they are distinct.
\<close>

definition keys_below :: "uuid \<Rightarrow> ('a \<Rightarrow> uuid option) \<Rightarrow> 'a list \<Rightarrow> bool" where
  "keys_below n pk xs = (\<forall>k\<in>pk ` set xs. \<exists>i. k = Some i \<and> i < n)"

definition bill_inv :: "db \<Rightarrow> bool" where
  "bill_inv s =
     (keys_below (next_uuid s) bill_id (bills s) \<and>
      keys_below (next_uuid s) ack_id (acknowledgements s) \<and>
      distinct (map ack_id (acknowledgements s)))"

text \<open>
  The status of a sales order against the sum \<open>n\<close> of its deliveries, and the
  invariant of the sales orders and their deliveries.
\<close>

definition so_ok :: "int \<Rightarrow> SalesOrder \<Rightarrow> bool" where
  "so_ok n x =
     ((order_status x = ''confirmed'' \<or> order_status x = ''cancelled'') \<and> n = 0 \<or>
      order_status x = ''partially_delivered'' \<and> 0 < n \<and> n < so_qty_ordered x \<or>
      order_status x = ''delivered'' \<and> n = so_qty_ordered x)"

definition deliv_inv :: "db \<Rightarrow> bool" where
  "deliv_inv s =
     (keys_below (next_uuid s) so_id (sales_orders s) \<and>
      distinct (map so_id (sales_orders s)) \<and>
      (\<forall>d\<in>set (delivery_outbound s). do_so_id d < next_uuid s) \<and>
      (\<forall>x\<in>set (sales_orders s). \<forall>k. so_id x = Some k \<longrightarrow> so_ok (total_delivered s k) x))"

text \<open>Observers: the quantity of an item and the status of a sales order, by id.\<close>

definition stock_qty :: "db \<Rightarrow> uuid \<Rightarrow> int option" where
  "stock_qty s iid = map_option item_qty (find (\<lambda>i. item_id i = Some iid) (stock_items s))"

definition so_status :: "db \<Rightarrow> uuid \<Rightarrow> string option" where
  "so_status s sid = map_option order_status (find (\<lambda>x. so_id x = Some sid) (sales_orders s))"

definition supplier_balance :: "db \<Rightarrow> uuid \<Rightarrow> rat option" where
  "supplier_balance s sid =
     map_option supplier_account_balance (find (\<lambda>x. supplier_id x = Some sid) (suppliers s))"

definition po_status_of :: "db \<Rightarrow> uuid \<Rightarrow> string option" where
  "po_status_of s pid =
     map_option po_status (find (\<lambda>p. po_id p = Some pid) (purchase_orders s))"

definition di_status_of :: "db \<Rightarrow> uuid \<Rightarrow> string option" where
  "di_status_of s did =
     map_option di_status (find (\<lambda>d. delivery_inbound_id d = Some did) (delivery_inbound s))"

section \<open>Concrete runs\<close>

text \<open>
  A sales run: a client (id 0), an item with 100 in stock (id 1), a direct sales order
  for 30 (order 2, invoice 3), which is cancelled, and a stock decrease by 90.
\<close>

definition order_run :: "request list" where
  "order_run = [CreateClient ''Bob'', CreateInventoryItem ''bolt'' 100 2 (Some 20),
                CreateSalesOrder 0 1 30 5]"

definition sales_run :: "request list" where
  "sales_run = order_run @ [CancelSalesOrder 2,
                            AdjustInventoryItem 1 decrease 90 ''shrinkage'']"

text \<open>The same order delivered in two parts, 10 and then 20.\<close>

definition delivery_run :: "request list" where
  "delivery_run = order_run @ [DeliverSalesOrder 2 1 10, DeliverSalesOrder 2 2 20]"

text \<open>
  A quote run: a client (id 0), an item with 100 in stock (id 1) and a quote for 200
  pieces (id 2).
\<close>

definition quote_run :: "request list" where
  "quote_run = [CreateClient ''Bob'', CreateInventoryItem ''bolt'' 100 2 (Some 20),
                CreateQuote 0 1 200 5]"

text \<open>
  A procurement run: a supplier (id 0), an item with 100 in stock (id 1), a purchase
  order for 50 at an expected price of 10 (id 2), acknowledged as accepted at 9 (the
  delivery gets id 3, the acknowledgement id 4); then the goods are received (the
  delivery recorded gets id 5).
\<close>

definition acknowledged_run :: "request list" where
  "acknowledged_run = [CreateSupplier ''Acme'' None, CreateInventoryItem ''bolt'' 100 2 (Some 20),
                       CreatePO 0 1 50 10, AcknowledgePO 2 (Some 9) ''accepted'']"

definition received_run :: "request list" where
  "received_run = acknowledged_run @ [ReceivePO 2 7]"

text \<open>
  The same purchase order accepted by a request that carries no price (the field of
  \<^verbatim>\<open>POAcknowledgeRequest\<close> is optional), then received.
\<close>

definition null_price_run :: "request list" where
  "null_price_run = [CreateSupplier ''Acme'' None, CreateInventoryItem ''bolt'' 100 2 (Some 20),
                     CreatePO 0 1 50 10, AcknowledgePO 2 None ''accepted'', ReceivePO 2 7]"

text \<open>
  A negotiation: the purchase order 2 gets a revised proposal at 12 (acknowledgement
  3), a rejected one at 11 (acknowledgement 4) and an accepted one at 9 (delivery 5,
  acknowledgement 6).
\<close>

definition negotiation_run :: "request list" where
  "negotiation_run = [CreateSupplier ''Acme'' None, CreateInventoryItem ''bolt'' 100 2 (Some 20),
                      CreatePO 0 1 50 10, AcknowledgePO 2 (Some 12) ''revised'',
                      AcknowledgePO 2 (Some 11) ''rejected'', AcknowledgePO 2 (Some 9) ''Accepted'']"

text \<open>
  A quote for 10 pieces (id 2) revised to the price 4 (the new quote has id 3).
\<close>

definition revision_run :: "request list" where
  "revision_run = [CreateClient ''Bob'', CreateInventoryItem ''bolt'' 100 2 (Some 20),
                   CreateQuote 0 1 10 5, ReviseQuote 2 4]"

text \<open>
  A supplier with a large open balance: a first purchase order (id 2) for one piece at
  10000000000000 is accepted, received and billed (bill 6) and stays unpaid; a second
  order (id 7) for 50 pieces at 0.33333333333333326 is accepted (delivery 8,
  acknowledgement 9) and received.
\<close>

definition rounding_run :: "request list" where
  "rounding_run = [CreateSupplier ''Acme'' None, CreateInventoryItem ''bolt'' 100 2 (Some 20),
                   CreatePO 0 1 1 10000000000000,
                   AcknowledgePO 2 (Some 10000000000000) ''accepted'', ReceivePO 2 7,
                   CreateBill 2,
                   CreatePO 0 1 50 (33333333333333326 / 100000000000000000),
                   AcknowledgePO 7 (Some (33333333333333326 / 100000000000000000)) ''accepted'',
                   ReceivePO 7 8]"
section \<open>Lemmas on the session primitives and the handlers\<close>

lemma find_SomeD: "find P xs = Some x \<Longrightarrow> x \<in> set xs \<and> P x"
  by (induction xs) (auto split: if_splits)

lemma find_Some_split:
  "find P xs = Some y \<Longrightarrow> \<exists>as bs. xs = as @ y # bs \<and> (\<forall>a\<in>set as. \<not> P a) \<and> P y"
proof (induction xs)
  case Nil
  then show ?case by simp
next
  case (Cons x xs)
  show ?case
  proof (cases "P x")
    case True
    with Cons.prems have "x = y" by simp
    with True show ?thesis by (intro exI[of _ "[]"] exI[of _ xs]) simp
  next
    case False
    with Cons.prems have "find P xs = Some y" by simp
    then obtain as bs where "xs = as @ y # bs" "\<forall>a\<in>set as. \<not> P a" "P y"
      using Cons.IH by blast
    with False show ?thesis by (intro exI[of _ "x # as"] exI[of _ bs]) simp
  qed
qed

lemma modify_first_split:
  "(\<forall>a\<in>set as. \<not> P a) \<Longrightarrow> P y \<Longrightarrow> modify_first P f (as @ y # bs) = as @ f y # bs"
  by (induction as) auto

lemma modify_first_None: "find P xs = None \<Longrightarrow> modify_first P f xs = xs"
  by (induction xs) (auto split: if_splits)

lemma set_modify_first_Some:
  "find P xs = Some y \<Longrightarrow> set (modify_first P f xs) \<subseteq> insert (f y) (set xs)"
  by (induction xs) (auto split: if_splits)

lemma ball_modify_first:
  "find P xs = Some y \<Longrightarrow> Q (f y) \<Longrightarrow> \<forall>x\<in>set xs. Q x \<Longrightarrow> \<forall>x\<in>set (modify_first P f xs). Q x"
  using set_modify_first_Some[of P xs y f] by auto

lemma in_set_modify_firstD:
  "x \<in> set (modify_first P f xs) \<Longrightarrow> find P xs = Some y \<Longrightarrow> x = f y \<or> x \<in> set xs"
  using set_modify_first_Some[of P xs y f] by auto

lemma set_modify_first_weak:
  "x \<in> set (modify_first P f xs) \<Longrightarrow> x \<in> set xs \<or> (\<exists>y\<in>set xs. P y \<and> x = f y)"
  by (induction xs) (auto split: if_splits)

lemma map_modify_first: "(\<And>x. g (f x) = g x) \<Longrightarrow> map g (modify_first P f xs) = map g xs"
  by (induction xs) auto

lemma find_modify_first_same:
  "(\<And>x. P x \<Longrightarrow> P (f x)) \<Longrightarrow> find P (modify_first P f xs) = map_option f (find P xs)"
  by (induction xs) auto

lemma find_modify_first_invariant:
  "(\<And>x. Q (f x) = Q x) \<Longrightarrow> (find Q (modify_first P f xs) = None) = (find Q xs = None)"
  by (induction xs) auto


lemma create_inventory_item_Inr:
  "create_inventory_item s name qty r ss = Inr (res, s') \<Longrightarrow>
     valid_ItemCreate name qty r ss \<and>
     res = \<lparr>item_id = Some (next_uuid s), item_name = name, item_qty = qty, rate = r,
             safety_stock = ss\<rparr> \<and>
     s' = s\<lparr>stock_items := stock_items s @ [res], next_uuid := next_uuid s + 1\<rparr>"
  by (auto simp: create_inventory_item_def Let_def split: if_splits)

lemma adjust_inventory_item_Inr:
  "adjust_inventory_item s iid ty quantity reason = Inr (res, s') \<Longrightarrow>
     \<exists>item. valid_StockAdjustmentCreate quantity reason \<and>
       find (\<lambda>i. item_id i = Some iid) (stock_items s) = Some item \<and>
       res = item_qty item + (if ty = increase then quantity else - quantity) \<and>
       0 \<le> res \<and>
       s' = s\<lparr>stock_items := modify_first (\<lambda>i. item_id i = Some iid)
                                 (\<lambda>i. i\<lparr>item_qty := res\<rparr>) (stock_items s)\<rparr>"
  by (auto simp: adjust_inventory_item_def Let_def split: if_splits option.splits)

lemma create_supplier_Inr:
  "create_supplier s name disc = Inr (res, s') \<Longrightarrow>
     supplier_id res = Some (next_uuid s) \<and>
     s' = s\<lparr>suppliers := suppliers s @ [res], next_uuid := next_uuid s + 1\<rparr>"
  by (auto simp: create_supplier_def Let_def split: if_splits)

lemma create_po_Inr:
  "create_po s sid iid qty price = Inr (res, s') \<Longrightarrow>
     valid_PurchaseOrderCreate qty price \<and>
     find (\<lambda>i. item_id i = Some iid) (stock_items s) \<noteq> None \<and>
     find (\<lambda>x. supplier_id x = Some sid) (suppliers s) \<noteq> None \<and>
     res = \<lparr>po_id = Some (next_uuid s), po_supplier_id = sid, po_item_id = iid,
             po_qty_ordered = qty, po_final_price_per_item = Some price,
             po_status = ''pending_price_negotiation''\<rparr> \<and>
     s' = s\<lparr>purchase_orders := purchase_orders s @ [res], next_uuid := next_uuid s + 1\<rparr>"
  by (auto simp: create_po_def Let_def split: if_splits option.splits)

lemma acknowledge_po_Inr:
  "acknowledge_po s pid price action_raw = Inr (res, s') \<Longrightarrow>
     \<exists>po. valid_POAcknowledgeRequest price \<and>
       find (\<lambda>p. po_id p = Some pid) (purchase_orders s) = Some po \<and>
       po_status po = ''pending_price_negotiation'' \<and>
       lower action_raw \<in> {''accepted'', ''rejected'', ''revised''} \<and>
       (if lower action_raw = ''accepted'' then
          res = \<lparr>ack_id = Some (next_uuid s + 1), ack_po_id = pid,
                  ack_final_price_per_item = price, ack_status = ''accepted'',
                  ack_is_final = True, ack_version = next_version s pid\<rparr> \<and>
          s' = s\<lparr>acknowledgements :=
                    map (\<lambda>a. if ack_po_id a = pid \<and> ack_id a \<noteq> None
                              then a\<lparr>ack_status := ''superseded'', ack_is_final := False\<rparr>
                              else a) (acknowledgements s) @ [res],
                  purchase_orders :=
                    modify_first (\<lambda>p. po_id p = Some pid)
                      (\<lambda>p. p\<lparr>po_final_price_per_item := price, po_status := ''acknowledged''\<rparr>)
                      (purchase_orders s),
                  delivery_inbound := delivery_inbound s @
                    [\<lparr>delivery_inbound_id = Some (next_uuid s), di_po_id = pid,
                      actual_date_of_delivery = None, di_status = ''in_transit''\<rparr>],
                  next_uuid := next_uuid s + 2\<rparr>
        else
          res = \<lparr>ack_id = Some (next_uuid s), ack_po_id = pid,
                  ack_final_price_per_item = price,
                  ack_status = (if lower action_raw = ''rejected'' then ''rejected''
                                else ''proposed''),
                  ack_is_final = False, ack_version = next_version s pid\<rparr> \<and>
          s' = s\<lparr>acknowledgements := acknowledgements s @ [res],
                  next_uuid := next_uuid s + 1\<rparr>)"
  unfolding acknowledge_po_def next_version_def Let_def
  by (auto split: if_splits option.splits)

lemma receive_po_Inr:
  "receive_po s pid date = Inr (res, s') \<Longrightarrow>
     \<exists>po item. find (\<lambda>p. po_id p = Some pid) (purchase_orders s) = Some po \<and>
       po_status po = ''acknowledged'' \<and>
       find (\<lambda>i. item_id i = Some (po_item_id po)) (stock_items s) = Some item \<and>
       find (\<lambda>d. di_po_id d = pid \<and> di_status d = ''received'') (delivery_inbound s) = None \<and>
       res = (Some (next_uuid s), item_qty item + po_qty_ordered po) \<and>
       s' = s\<lparr>stock_items :=
                 modify_first (\<lambda>i. item_id i = Some (po_item_id po))
                   (\<lambda>i. i\<lparr>item_qty := item_qty item + po_qty_ordered po\<rparr>) (stock_items s),
               purchase_orders :=
                 modify_first (\<lambda>p. po_id p = Some pid)
                   (\<lambda>p. p\<lparr>po_status := ''received''\<rparr>) (purchase_orders s),
               delivery_inbound := delivery_inbound s @
                 [\<lparr>delivery_inbound_id = Some (next_uuid s), di_po_id = pid,
                   actual_date_of_delivery = Some date, di_status = ''received''\<rparr>],
               next_uuid := next_uuid s + 1\<rparr>"
  unfolding receive_po_def Let_def
  by (auto split: if_splits option.splits)

lemma create_bill_Inr:
  "create_bill s pid = Inr (res, s') \<Longrightarrow>
     \<exists>po final_ack supplier price.
       find (\<lambda>p. po_id p = Some pid) (purchase_orders s) = Some po \<and>
       po_status po = ''received'' \<and>
       find (\<lambda>b. bill_po_id b = pid) (bills s) = None \<and>
       find (\<lambda>a. ack_po_id a = pid \<and> ack_is_final a = True) (acknowledgements s) = Some final_ack \<and>
       find (\<lambda>x. supplier_id x = Some (po_supplier_id po)) (suppliers s) = Some supplier \<and>
       ack_final_price_per_item final_ack = Some price \<and>
       res = \<lparr>bill_id = Some (next_uuid s), bill_po_id = pid, bill_ack_id = ack_id final_ack,
               bill_payment_status = ''pending'', payment_reference = None, paid_at = None\<rparr> \<and>
       s' = s\<lparr>suppliers :=
                 modify_first (\<lambda>x. supplier_id x = Some (po_supplier_id po))
                   (\<lambda>x. x\<lparr>supplier_account_balance :=
                             decimal_add (supplier_account_balance x)
                               (decimal_mul (of_int (po_qty_ordered po)) price)\<rparr>)
                   (suppliers s),
               bills := bills s @ [res],
               next_uuid := next_uuid s + 1\<rparr>"
  unfolding create_bill_def Let_def
  by (auto split: if_splits option.splits)

lemma pay_bill_Inr:
  "pay_bill s bid reference now = Inr (res, s') \<Longrightarrow>
     \<exists>bill po final_ack supplier price.
       find (\<lambda>b. bill_id b = Some bid) (bills s) = Some bill \<and>
       bill_payment_status bill \<noteq> ''paid'' \<and>
       find (\<lambda>p. po_id p = Some (bill_po_id bill)) (purchase_orders s) = Some po \<and>
       find (\<lambda>a. ack_id a = bill_ack_id bill) (acknowledgements s) = Some final_ack \<and>
       ack_final_price_per_item final_ack = Some price \<and>
       find (\<lambda>x. supplier_id x = Some (po_supplier_id po)) (suppliers s) = Some supplier \<and>
       s' = s\<lparr>bills :=
                 modify_first (\<lambda>b. bill_id b = Some bid)
                   (\<lambda>b. b\<lparr>bill_payment_status := ''paid'', payment_reference := Some reference,
                           paid_at := Some now\<rparr>) (bills s),
               suppliers :=
                 modify_first (\<lambda>x. supplier_id x = Some (po_supplier_id po))
                   (\<lambda>x. x\<lparr>supplier_account_balance :=
                             decimal_sub (supplier_account_balance x)
                               (decimal_mul (of_int (po_qty_ordered po)) price)\<rparr>)
                   (suppliers s)\<rparr>"
  unfolding pay_bill_def Let_def
  by (auto split: if_splits option.splits)

lemma create_client_Inr:
  "create_client s name = Inr (res, s') \<Longrightarrow>
     client_id res = Some (next_uuid s) \<and>
     s' = s\<lparr>clients := clients s @ [res], next_uuid := next_uuid s + 1\<rparr>"
  by (auto simp: create_client_def Let_def)

lemma create_quote_Inr:
  "create_quote s cid iid qty price = Inr (res, s') \<Longrightarrow>
     valid_QuoteCreate qty price \<and>
     res = \<lparr>quote_id = Some (next_uuid s), q_client_id = cid, q_item_id = iid,
             order_qty = qty, q_final_price_per_item = price, q_status = ''sent'',
             q_version = 1, q_is_final = False, superseded_by = None\<rparr> \<and>
     s' = s\<lparr>quotes := quotes s @ [res], next_uuid := next_uuid s + 1\<rparr>"
  by (auto simp: create_quote_def Let_def split: if_splits)

lemma revise_quote_Inr:
  "revise_quote s qid price = Inr (res, s') \<Longrightarrow>
     \<exists>old. valid_QuoteReviseRequest price \<and>
       find (\<lambda>q. quote_id q = Some qid) (quotes s) = Some old \<and>
       \<not> q_is_final old \<and>
       res = \<lparr>quote_id = Some (next_uuid s), q_client_id = q_client_id old,
               q_item_id = q_item_id old, order_qty = order_qty old,
               q_final_price_per_item = price, q_status = ''revised'',
               q_version = q_version old + 1, q_is_final = False, superseded_by = None\<rparr> \<and>
       s' = s\<lparr>quotes :=
                 modify_first (\<lambda>q. quote_id q = Some qid)
                   (\<lambda>q. q\<lparr>q_status := ''superseded'', superseded_by := None\<rparr>) (quotes s) @ [res],
               next_uuid := next_uuid s + 1\<rparr>"
  unfolding revise_quote_def Let_def
  by (auto split: if_splits option.splits)

lemma accept_quote_Inr:
  "accept_quote s qid = Inr (res, s') \<Longrightarrow>
     \<exists>quote item client.
       find (\<lambda>q. quote_id q = Some qid) (quotes s) = Some quote \<and>
       q_status quote \<noteq> ''accepted'' \<and> \<not> q_is_final quote \<and>
       find (\<lambda>i. item_id i = Some (q_item_id quote)) (stock_items s) = Some item \<and>
       order_qty quote \<le> item_qty item \<and>
       find (\<lambda>c. client_id c = Some (q_client_id quote)) (clients s) = Some client \<and>
       res = (Some qid, Some (next_uuid s)) \<and>
       s' = s\<lparr>quotes :=
                 modify_first (\<lambda>q. quote_id q = Some qid)
                   (\<lambda>q. q\<lparr>q_is_final := True, q_status := ''accepted''\<rparr>)
                   (map (\<lambda>q. if q_client_id q = q_client_id quote \<and>
                                q_item_id q = q_item_id quote \<and>
                                q_is_final q = False \<and> quote_id q \<noteq> Some qid
                             then q\<lparr>q_status := ''superseded''\<rparr> else q) (quotes s)),
               stock_items :=
                 modify_first (\<lambda>i. item_id i = Some (q_item_id quote))
                   (\<lambda>i. i\<lparr>item_qty := item_qty i - order_qty quote\<rparr>) (stock_items s),
               sales_orders := sales_orders s @
                 [\<lparr>so_id = Some (next_uuid s), so_client_id = q_client_id quote,
                   so_quote_id = Some qid, so_item_id = q_item_id quote,
                   so_qty_ordered = order_qty quote,
                   so_final_price_per_item = q_final_price_per_item quote,
                   order_status = ''confirmed'', so_invoice_id = Some (next_uuid s + 1)\<rparr>],
               invoices := invoices s @
                 [\<lparr>invoice_id = Some (next_uuid s + 1), inv_so_id = Some (next_uuid s),
                   inv_quote_id = Some qid, inv_payment_status = ''pending'',
                   voided = False\<rparr>],
               clients :=
                 modify_first (\<lambda>c. client_id c = Some (q_client_id quote))
                   (\<lambda>c. c\<lparr>client_account_balance :=
                             decimal_add (client_account_balance c)
                               (decimal_mul (of_int (order_qty quote))
                                  (q_final_price_per_item quote))\<rparr>)
                   (clients s),
               next_uuid := next_uuid s + 2\<rparr>"
  unfolding accept_quote_def Let_def
  by (auto split: if_splits option.splits dest: find_SomeD)

lemma create_sales_order_Inr:
  "create_sales_order s cid iid qty price = Inr (res, s') \<Longrightarrow>
     \<exists>item client.
       valid_SalesOrderCreate qty price \<and>
       find (\<lambda>i. item_id i = Some iid) (stock_items s) = Some item \<and>
       qty \<le> item_qty item \<and>
       find (\<lambda>c. client_id c = Some cid) (clients s) = Some client \<and>
       res = \<lparr>so_id = Some (next_uuid s), so_client_id = cid, so_quote_id = None,
               so_item_id = iid, so_qty_ordered = qty, so_final_price_per_item = of_int price,
               order_status = ''confirmed'', so_invoice_id = Some (next_uuid s + 1)\<rparr> \<and>
       s' = s\<lparr>stock_items :=
                 modify_first (\<lambda>i. item_id i = Some iid)
                   (\<lambda>i. i\<lparr>item_qty := item_qty i - qty\<rparr>) (stock_items s),
               sales_orders := sales_orders s @ [res],
               invoices := invoices s @
                 [\<lparr>invoice_id = Some (next_uuid s + 1), inv_so_id = Some (next_uuid s),
                   inv_quote_id = None, inv_payment_status = ''pending'', voided = False\<rparr>],
               clients :=
                 modify_first (\<lambda>c. client_id c = Some cid)
                   (\<lambda>c. c\<lparr>client_account_balance :=
                             decimal_add (client_account_balance c) (of_int (qty * price))\<rparr>)
                   (clients s),
               next_uuid := next_uuid s + 2\<rparr>"
  unfolding create_sales_order_def Let_def
  by (auto split: if_splits option.splits)

lemma deliver_sales_order_Inr:
  "deliver_sales_order s sid date qty = Inr (res, s') \<Longrightarrow>
     \<exists>so. valid_DeliveryOutboundRequest qty \<and>
       find (\<lambda>x. so_id x = Some sid) (sales_orders s) = Some so \<and>
       order_status so \<noteq> ''cancelled'' \<and> order_status so \<noteq> ''delivered'' \<and>
       total_delivered s sid + qty \<le> so_qty_ordered so \<and>
       res = \<lparr>delivery_outbound_id = Some (next_uuid s), do_so_id = sid,
               delivered_qty = qty, date_of_delivery = date, do_status = ''delivered''\<rparr> \<and>
       s' = s\<lparr>sales_orders :=
                 modify_first (\<lambda>x. so_id x = Some sid)
                   (\<lambda>x. x\<lparr>order_status :=
                             (if total_delivered s sid + qty < so_qty_ordered so
                              then ''partially_delivered'' else ''delivered'')\<rparr>)
                   (sales_orders s),
               delivery_outbound := delivery_outbound s @ [res],
               next_uuid := next_uuid s + 1\<rparr>"
  unfolding deliver_sales_order_def Let_def
  by (auto split: if_splits option.splits)

lemma cancel_sales_order_Inr:
  "cancel_sales_order s sid = Inr (res, s') \<Longrightarrow>
     \<exists>so item.
       find (\<lambda>x. so_id x = Some sid) (sales_orders s) = Some so \<and>
       order_status so \<noteq> ''delivered'' \<and> order_status so \<noteq> ''partially_delivered'' \<and>
       find (\<lambda>i. item_id i = Some (so_item_id so)) (stock_items s) = Some item \<and>
       s' = s\<lparr>stock_items :=
                 modify_first (\<lambda>i. item_id i = Some (so_item_id so))
                   (\<lambda>i. i\<lparr>item_qty := item_qty i + so_qty_ordered so\<rparr>) (stock_items s),
               sales_orders :=
                 modify_first (\<lambda>x. so_id x = Some sid)
                   (\<lambda>x. x\<lparr>order_status := ''cancelled''\<rparr>) (sales_orders s)\<rparr>"
  unfolding cancel_sales_order_def Let_def
  by (auto split: if_splits option.splits)

lemma void_invoice_Inr:
  "void_invoice s vid = Inr (res, s') \<Longrightarrow>
     s' = s\<lparr>invoices :=
               modify_first (\<lambda>v. invoice_id v = Some vid)
                 (\<lambda>v. v\<lparr>voided := True, inv_payment_status := ''voided''\<rparr>) (invoices s)\<rparr>"
  unfolding void_invoice_def Let_def
  by (auto split: if_splits option.splits)

lemmas valid_defs = valid_ItemCreate_def valid_StockAdjustmentCreate_def valid_SupplierCreate_def
  valid_PurchaseOrderCreate_def valid_POAcknowledgeRequest_def valid_BillPaymentRequest_def
  valid_QuoteCreate_def valid_QuoteReviseRequest_def valid_SalesOrderCreate_def
  valid_DeliveryOutboundRequest_def

lemma committed_Inl [simp]: "committed s (Inl e) = s"
  by (simp add: committed_def)

lemma committed_Inr [simp]: "committed s (Inr (r, s')) = s'"
  by (simp add: committed_def)

lemma committed_cases:
  "P s \<Longrightarrow> (\<And>r s'. res = Inr (r, s') \<Longrightarrow> P s') \<Longrightarrow> P (committed s res)"
  by (auto simp: committed_def split: sum.splits)

lemma step_preserves:
  assumes "P s"
    and "\<And>name qty r ss res s'. create_inventory_item s name qty r ss = Inr (res, s') \<Longrightarrow> P s'"
    and "\<And>iid ty qty reason res s'. adjust_inventory_item s iid ty qty reason = Inr (res, s') \<Longrightarrow> P s'"
    and "\<And>name disc res s'. create_supplier s name disc = Inr (res, s') \<Longrightarrow> P s'"
    and "\<And>sid iid qty price res s'. create_po s sid iid qty price = Inr (res, s') \<Longrightarrow> P s'"
    and "\<And>pid price action res s'. acknowledge_po s pid price action = Inr (res, s') \<Longrightarrow> P s'"
    and "\<And>pid date res s'. receive_po s pid date = Inr (res, s') \<Longrightarrow> P s'"
    and "\<And>pid res s'. create_bill s pid = Inr (res, s') \<Longrightarrow> P s'"
    and "\<And>bid reference now res s'. pay_bill s bid reference now = Inr (res, s') \<Longrightarrow> P s'"
    and "\<And>name res s'. create_client s name = Inr (res, s') \<Longrightarrow> P s'"
    and "\<And>cid iid qty price res s'. create_quote s cid iid qty price = Inr (res, s') \<Longrightarrow> P s'"
    and "\<And>qid price res s'. revise_quote s qid price = Inr (res, s') \<Longrightarrow> P s'"
    and "\<And>qid res s'. accept_quote s qid = Inr (res, s') \<Longrightarrow> P s'"
    and "\<And>cid iid qty price res s'. create_sales_order s cid iid qty price = Inr (res, s') \<Longrightarrow> P s'"
    and "\<And>sid date qty res s'. deliver_sales_order s sid date qty = Inr (res, s') \<Longrightarrow> P s'"
    and "\<And>sid res s'. cancel_sales_order s sid = Inr (res, s') \<Longrightarrow> P s'"
    and "\<And>vid res s'. void_invoice s vid = Inr (res, s') \<Longrightarrow> P s'"
  shows "P (step s r)"
proof (cases r)
  case (CreateInventoryItem x1 x2 x3 x4)
  then show ?thesis using assms(1,2) by (auto intro: committed_cases)
next
  case (AdjustInventoryItem x1 x2 x3 x4)
  then show ?thesis using assms(1,3) by (auto intro: committed_cases)
next
  case (CreateSupplier x1 x2)
  then show ?thesis using assms(1,4) by (auto intro: committed_cases)
next
  case (CreatePO x1 x2 x3 x4)
  then show ?thesis using assms(1,5) by (auto intro: committed_cases)
next
  case (AcknowledgePO x1 x2 x3)
  then show ?thesis using assms(1,6) by (auto intro: committed_cases)
next
  case (ReceivePO x1 x2)
  then show ?thesis using assms(1,7) by (auto intro: committed_cases)
next
  case (CreateBill x1)
  then show ?thesis using assms(1,8) by (auto intro: committed_cases)
next
  case (PayBill x1 x2 x3)
  then show ?thesis using assms(1,9) by (auto intro: committed_cases)
next
  case (CreateClient x1)
  then show ?thesis using assms(1,10) by (auto intro: committed_cases)
next
  case (CreateQuote x1 x2 x3 x4)
  then show ?thesis using assms(1,11) by (auto intro: committed_cases)
next
  case (ReviseQuote x1 x2)
  then show ?thesis using assms(1,12) by (auto intro: committed_cases)
next
  case (AcceptQuote x1)
  then show ?thesis using assms(1,13) by (auto intro: committed_cases)
next
  case (CreateSalesOrder x1 x2 x3 x4)
  then show ?thesis using assms(1,14) by (auto intro: committed_cases)
next
  case (DeliverSalesOrder x1 x2 x3)
  then show ?thesis using assms(1,15) by (auto intro: committed_cases)
next
  case (CancelSalesOrder x1)
  then show ?thesis using assms(1,16) by (auto intro: committed_cases)
next
  case (VoidInvoice x1)
  then show ?thesis using assms(1,17) by (auto intro: committed_cases)
qed

lemma run_preserves:
  assumes "P s" and "\<And>s r. P s \<Longrightarrow> P (step s r)"
  shows "P (run s rs)"
  using assms(1) unfolding run_def
  by (induction rs arbitrary: s) (auto intro: assms(2))

lemma qty_inv_step:
  assumes inv: "qty_inv s"
  shows "qty_inv (step s r)"
proof (rule step_preserves[of qty_inv, OF inv], goal_cases)
  case (2 iid ty qty reason res s')
  with inv show ?case
    by (auto simp: qty_inv_def dest!: adjust_inventory_item_Inr in_set_modify_firstD)
next
  case (6 pid date res s')
  from receive_po_Inr[OF 6] obtain po item where
    f: "find (\<lambda>p. po_id p = Some pid) (purchase_orders s) = Some po"
       "find (\<lambda>i. item_id i = Some (po_item_id po)) (stock_items s) = Some item"
    and s': "stock_items s' = modify_first (\<lambda>i. item_id i = Some (po_item_id po))
                   (\<lambda>i. i\<lparr>item_qty := item_qty item + po_qty_ordered po\<rparr>) (stock_items s)"
       "purchase_orders s' = modify_first (\<lambda>p. po_id p = Some pid)
                   (\<lambda>p. p\<lparr>po_status := ''received''\<rparr>) (purchase_orders s)"
       "quotes s' = quotes s" "sales_orders s' = sales_orders s"
    by auto
  from f inv have "0 < po_qty_ordered po" "0 \<le> item_qty item"
    by (auto simp: qty_inv_def dest!: find_SomeD)
  with f inv show ?case unfolding qty_inv_def s'
    by (auto dest!: in_set_modify_firstD)
next
  case (12 qid res s')
  from accept_quote_Inr[OF 12] obtain quote item where
    f: "find (\<lambda>q. quote_id q = Some qid) (quotes s) = Some quote"
       "find (\<lambda>i. item_id i = Some (q_item_id quote)) (stock_items s) = Some item"
       "order_qty quote \<le> item_qty item"
    and s': "stock_items s' = modify_first (\<lambda>i. item_id i = Some (q_item_id quote))
                   (\<lambda>i. i\<lparr>item_qty := item_qty i - order_qty quote\<rparr>) (stock_items s)"
       "purchase_orders s' = purchase_orders s"
       "quotes s' = modify_first (\<lambda>q. quote_id q = Some qid)
                   (\<lambda>q. q\<lparr>q_is_final := True, q_status := ''accepted''\<rparr>)
                   (map (\<lambda>q. if q_client_id q = q_client_id quote \<and>
                                q_item_id q = q_item_id quote \<and>
                                q_is_final q = False \<and> quote_id q \<noteq> Some qid
                             then q\<lparr>q_status := ''superseded''\<rparr> else q) (quotes s))"
       "sales_orders s' = sales_orders s @
                 [\<lparr>so_id = Some (next_uuid s), so_client_id = q_client_id quote,
                   so_quote_id = Some qid, so_item_id = q_item_id quote,
                   so_qty_ordered = order_qty quote,
                   so_final_price_per_item = q_final_price_per_item quote,
                   order_status = ''confirmed'', so_invoice_id = Some (next_uuid s + 1)\<rparr>]"
    by auto
  from f inv have pos: "0 < order_qty quote"
    by (auto simp: qty_inv_def dest!: find_SomeD)
  have "\<forall>q\<in>set (quotes s'). 0 < order_qty q"
    unfolding s' using inv by (auto simp: qty_inv_def dest!: set_modify_first_weak)
  with f pos inv show ?case unfolding qty_inv_def s'(1,2,4)
    by (auto dest!: in_set_modify_firstD)
next
  case (13 cid iid qty price res s')
  with inv show ?case
    by (auto simp: qty_inv_def valid_SalesOrderCreate_def dest!: create_sales_order_Inr in_set_modify_firstD)
next
  case (15 sid res s')
  from cancel_sales_order_Inr[OF 15] obtain so item where
    f: "find (\<lambda>x. so_id x = Some sid) (sales_orders s) = Some so"
       "find (\<lambda>i. item_id i = Some (so_item_id so)) (stock_items s) = Some item"
    and s': "stock_items s' = modify_first (\<lambda>i. item_id i = Some (so_item_id so))
                   (\<lambda>i. i\<lparr>item_qty := item_qty i + so_qty_ordered so\<rparr>) (stock_items s)"
       "purchase_orders s' = purchase_orders s" "quotes s' = quotes s"
       "sales_orders s' = modify_first (\<lambda>x. so_id x = Some sid)
                   (\<lambda>x. x\<lparr>order_status := ''cancelled''\<rparr>) (sales_orders s)"
    by auto
  from f inv have "0 < so_qty_ordered so" "0 \<le> item_qty item"
    by (auto simp: qty_inv_def dest!: find_SomeD)
  with f inv show ?case unfolding qty_inv_def s'
    by (auto dest!: in_set_modify_firstD)
next
  case (1 name qty r ss res s')
  with inv show ?case
    by (auto simp: qty_inv_def valid_ItemCreate_def dest!: create_inventory_item_Inr)
next
  case (3 name disc res s')
  with inv show ?case by (auto simp: qty_inv_def dest!: create_supplier_Inr)
next
  case (4 sid iid qty price res s')
  with inv show ?case
    by (auto simp: qty_inv_def valid_PurchaseOrderCreate_def dest!: create_po_Inr)
next
  case (5 pid price action res s')
  with inv show ?case
    by (auto simp: qty_inv_def dest!: acknowledge_po_Inr set_modify_first_weak split: if_splits)
next
  case (7 pid res s')
  with inv show ?case by (auto simp: qty_inv_def dest!: create_bill_Inr)
next
  case (8 bid reference now res s')
  with inv show ?case by (auto simp: qty_inv_def dest!: pay_bill_Inr)
next
  case (9 name res s')
  with inv show ?case by (auto simp: qty_inv_def dest!: create_client_Inr)
next
  case (10 cid iid qty price res s')
  with inv show ?case
    by (auto simp: qty_inv_def valid_QuoteCreate_def dest!: create_quote_Inr)
next
  case (11 qid price res s')
  with inv show ?case
    by (auto simp: qty_inv_def dest!: revise_quote_Inr set_modify_first_weak find_SomeD)
next
  case (14 sid date qty res s')
  with inv show ?case
    by (auto simp: qty_inv_def dest!: deliver_sales_order_Inr set_modify_first_weak)
next
  case (16 vid res s')
  with inv show ?case by (auto simp: qty_inv_def dest!: void_invoice_Inr)
qed

lemma qty_inv_empty: "qty_inv empty_db"
  by (simp add: qty_inv_def empty_db_def)

lemma qty_inv_run: "qty_inv (run empty_db rs)"
  by (rule run_preserves[of qty_inv, OF qty_inv_empty qty_inv_step])

lemmas Inr_lemmas = create_inventory_item_Inr adjust_inventory_item_Inr create_supplier_Inr
  create_po_Inr acknowledge_po_Inr receive_po_Inr create_bill_Inr pay_bill_Inr create_client_Inr
  create_quote_Inr revise_quote_Inr accept_quote_Inr create_sales_order_Inr
  deliver_sales_order_Inr cancel_sales_order_Inr void_invoice_Inr

lemma find_Some_iff_ex: "(find P xs \<noteq> None) = (\<exists>x\<in>set xs. P x)"
  by (auto simp: find_None_iff)

lemma find_Some_pk_in: "find (\<lambda>i. pk i = Some k) xs = Some y \<Longrightarrow> Some k \<in> pk ` set xs"
  by (auto dest!: find_SomeD intro: rev_image_eqI)

lemma image_modify_first:
  "(\<And>x. g (f x) = g x) \<Longrightarrow> g ` set (modify_first P f xs) = g ` set xs"
  using map_modify_first[of g f P xs] by (metis set_map)

lemma so_item_inv_step:
  assumes inv: "so_item_inv s"
  shows "so_item_inv (step s r)"
proof (rule step_preserves[of so_item_inv, OF inv], goal_cases)
  case (1 name qty r ss res s')
  with inv show ?case by (auto simp: so_item_inv_def dest!: create_inventory_item_Inr)
next
  case (2 iid ty qty reason res s')
  with inv show ?case
    by (auto simp: so_item_inv_def image_modify_first dest!: adjust_inventory_item_Inr)
next
  case (3 name disc res s')
  with inv show ?case by (auto simp: so_item_inv_def dest!: create_supplier_Inr)
next
  case (4 sid iid qty price res s')
  with inv show ?case by (auto simp: so_item_inv_def dest!: create_po_Inr)
next
  case (5 pid price action res s')
  with inv show ?case by (auto simp: so_item_inv_def dest!: acknowledge_po_Inr split: if_splits)
next
  case (6 pid date res s')
  with inv show ?case
    by (auto simp: so_item_inv_def image_modify_first dest!: receive_po_Inr)
next
  case (7 pid res s')
  with inv show ?case by (auto simp: so_item_inv_def dest!: create_bill_Inr)
next
  case (8 bid reference now res s')
  with inv show ?case by (auto simp: so_item_inv_def dest!: pay_bill_Inr)
next
  case (9 name res s')
  with inv show ?case by (auto simp: so_item_inv_def dest!: create_client_Inr)
next
  case (10 cid iid qty price res s')
  with inv show ?case by (auto simp: so_item_inv_def dest!: create_quote_Inr)
next
  case (11 qid price res s')
  with inv show ?case by (auto simp: so_item_inv_def dest!: revise_quote_Inr)
next
  case (12 qid res s')
  with inv show ?case
    by (auto simp: so_item_inv_def image_modify_first dest!: accept_quote_Inr find_Some_pk_in)
next
  case (13 cid iid qty price res s')
  with inv show ?case
    by (auto simp: so_item_inv_def image_modify_first dest!: create_sales_order_Inr find_Some_pk_in)
next
  case (14 sid date qty res s')
  with inv show ?case
    by (auto simp: so_item_inv_def image_modify_first dest!: deliver_sales_order_Inr set_modify_first_weak)
next
  case (15 sid res s')
  with inv show ?case
    by (auto simp: so_item_inv_def image_modify_first dest!: cancel_sales_order_Inr set_modify_first_weak)
next
  case (16 vid res s')
  with inv show ?case by (auto simp: so_item_inv_def dest!: void_invoice_Inr)
qed

lemma so_item_inv_run: "so_item_inv (run empty_db rs)"
proof (rule run_preserves[of so_item_inv])
  show "so_item_inv empty_db" by (simp add: so_item_inv_def empty_db_def)
qed (rule so_item_inv_step)

lemma so_item_found:
  assumes "find (\<lambda>x. so_id x = Some sid) (sales_orders (run empty_db rs)) = Some so"
  shows "\<exists>item. find (\<lambda>i. item_id i = Some (so_item_id so)) (stock_items (run empty_db rs)) = Some item"
proof -
  from assms have "so \<in> set (sales_orders (run empty_db rs))" by (auto dest: find_SomeD)
  with so_item_inv_run[of rs] have "Some (so_item_id so) \<in> item_id ` set (stock_items (run empty_db rs))"
    unfolding so_item_inv_def by auto
  then have "find (\<lambda>i. item_id i = Some (so_item_id so)) (stock_items (run empty_db rs)) \<noteq> None"
    by (auto simp: find_None_iff)
  then show ?thesis by auto
qed

lemma cancel_sales_order_ok:
  assumes "find (\<lambda>x. so_id x = Some sid) (sales_orders s) = Some so"
    and "order_status so \<notin> {''delivered'', ''partially_delivered''}"
    and "find (\<lambda>i. item_id i = Some (so_item_id so)) (stock_items s) = Some item"
  shows "cancel_sales_order s sid =
     Inr (''Sales Order cancelled'',
          s\<lparr>stock_items :=
              modify_first (\<lambda>i. item_id i = Some (so_item_id so))
                (\<lambda>i. i\<lparr>item_qty := item_qty i + so_qty_ordered so\<rparr>) (stock_items s),
            sales_orders :=
              modify_first (\<lambda>x. so_id x = Some sid)
                (\<lambda>x. x\<lparr>order_status := ''cancelled''\<rparr>) (sales_orders s)\<rparr>)"
  using assms by (simp add: cancel_sales_order_def)

lemma find_map_preserved:
  "(\<And>x. P (g x) = P x) \<Longrightarrow> find P (map g xs) = map_option g (find P xs)"
  by (induction xs) auto

lemma in_set_modify_first_not:
  "x \<in> set xs \<Longrightarrow> \<not> P x \<Longrightarrow> x \<in> set (modify_first P f xs)"
  by (induction xs) auto

lemma in_set_modify_first_other:
  assumes "x \<in> set xs" "find P xs = Some y" "x \<noteq> y"
  shows "x \<in> set (modify_first P f xs)"
proof -
  from find_Some_split[OF assms(2)] obtain as bs where
    xs: "xs = as @ y # bs" and as: "\<forall>a\<in>set as. \<not> P a" and y: "P y" by blast
  have "modify_first P f xs = as @ f y # bs"
    unfolding xs by (rule modify_first_split[OF as y])
  with assms(1,3) xs show ?thesis by auto
qed

lemma first_by_version_desc_max:
  assumes "a \<in> set xs"
  shows "\<exists>b. first_by_version_desc xs = Some b \<and> ack_version a \<le> ack_version b"
proof -
  let ?f = "\<lambda>a. - ack_version a"
  have nonempty: "sort_key ?f xs \<noteq> []"
    using assms by (metis empty_iff empty_set set_sort)
  then obtain b ys where s: "sort_key ?f xs = b # ys" by (cases "sort_key ?f xs") auto
  have "sorted (map ?f (b # ys))" using sorted_sort_key[of ?f xs] s by simp
  moreover have "a \<in> set (b # ys)" using assms s by (metis set_sort)
  ultimately have "?f b \<le> ?f a" by auto
  with s show ?thesis by (simp add: first_by_version_desc_def)
qed

lemma next_version_gt:
  assumes "a \<in> set (acknowledgements s)" "ack_po_id a = pid"
  shows "ack_version a < next_version s pid"
proof -
  from assms have "a \<in> set (filter (\<lambda>a. ack_po_id a = pid) (acknowledgements s))" by simp
  from first_by_version_desc_max[OF this] show ?thesis
    by (auto simp: next_version_def)
qed

lemma ack_inv_cong: "acknowledgements s' = acknowledgements s \<Longrightarrow> ack_inv s' = ack_inv s"
  by (simp add: ack_inv_def final_acks_def ack_versions_def)

lemma supersede_simps [simp]:
  "ack_po_id (supersede pid a) = ack_po_id a"
  "ack_version (supersede pid a) = ack_version a"
  "ack_id (supersede pid a) = ack_id a"
  by (simp_all add: supersede_def)

lemma final_after_supersede_same:
  "\<forall>a\<in>set xs. ack_id a \<noteq> None \<Longrightarrow>
   filter (\<lambda>a. ack_po_id a = pid \<and> ack_is_final a) (map (supersede pid) xs) = []"
  by (induction xs) (auto simp: supersede_def)

lemma final_after_supersede_other:
  "p \<noteq> pid \<Longrightarrow>
   filter (\<lambda>a. ack_po_id a = p \<and> ack_is_final a) (map (supersede pid) xs) =
   filter (\<lambda>a. ack_po_id a = p \<and> ack_is_final a) xs"
  by (induction xs) (auto simp: supersede_def)

lemma versions_after_supersede:
  "map ack_version (filter (\<lambda>a. ack_po_id a = p) (map (supersede pid) xs)) =
   map ack_version (filter (\<lambda>a. ack_po_id a = p) xs)"
  by (induction xs) auto

lemma ack_inv_acknowledge_po:
  assumes inv: "ack_inv s" and ok: "acknowledge_po s pid price action = Inr (res, s')"
  shows "ack_inv s'"
proof -
  from acknowledge_po_Inr[OF ok] have
    res: "ack_po_id res = pid" "ack_version res = next_version s pid" "ack_id res \<noteq> None"
    and acks: "acknowledgements s' =
       (if lower action = ''accepted'' then map (supersede pid) (acknowledgements s) @ [res]
        else acknowledgements s @ [res])"
    and fin: "ack_is_final res = (lower action = ''accepted'')"
    by (auto simp: supersede_def[abs_def] split: if_splits)
  have fresh: "next_version s pid \<notin> set (ack_versions s pid)"
  proof
    assume "next_version s pid \<in> set (ack_versions s pid)"
    then obtain a where a: "a \<in> set (acknowledgements s)" "ack_po_id a = pid"
      "ack_version a = next_version s pid"
      by (auto simp: ack_versions_def)
    with next_version_gt[OF a(1,2)] show False by simp
  qed
  have ids: "\<forall>a\<in>set (acknowledgements s). ack_id a \<noteq> None"
    using inv by (simp add: ack_inv_def)
  have one: "length (final_acks s p) \<le> 1" for p using inv by (simp add: ack_inv_def)
  have dist: "distinct (ack_versions s p)" for p using inv by (simp add: ack_inv_def)
  show ?thesis
  proof (cases "lower action = ''accepted''")
    case True
    have "length (final_acks s' p) \<le> 1" for p
      using one[of p] ids res fin True
      by (cases "p = pid")
         (simp_all add: final_acks_def acks final_after_supersede_same final_after_supersede_other)
    moreover have "distinct (ack_versions s' p)" for p
      using dist[of p] fresh res True
      by (auto simp: ack_versions_def acks versions_after_supersede)
    moreover have "\<forall>a\<in>set (acknowledgements s'). ack_id a \<noteq> None"
      using ids res True by (auto simp: acks)
    ultimately show ?thesis by (simp add: ack_inv_def)
  next
    case False
    have "length (final_acks s' p) \<le> 1" for p
      using one[of p] fin False by (simp add: final_acks_def acks)
    moreover have "distinct (ack_versions s' p)" for p
      using dist[of p] fresh res False
      by (auto simp: ack_versions_def acks)
    moreover have "\<forall>a\<in>set (acknowledgements s'). ack_id a \<noteq> None"
      using ids res False by (auto simp: acks)
    ultimately show ?thesis by (simp add: ack_inv_def)
  qed
qed

lemma ack_inv_step:
  assumes inv: "ack_inv s"
  shows "ack_inv (step s r)"
proof (rule step_preserves[of ack_inv, OF inv], goal_cases)
  case (5 pid price action res s')
  then show ?case by (rule ack_inv_acknowledge_po[OF inv])
next
  case (1 name qty r ss res s')
  with inv show ?case
    by (auto simp: ack_inv_def final_acks_def ack_versions_def dest!: create_inventory_item_Inr)
next
  case (2 iid ty qty reason res s')
  with inv show ?case
    by (auto simp: ack_inv_def final_acks_def ack_versions_def dest!: adjust_inventory_item_Inr)
next
  case (3 name disc res s')
  with inv show ?case
    by (auto simp: ack_inv_def final_acks_def ack_versions_def dest!: create_supplier_Inr)
next
  case (4 sid iid qty price res s')
  with inv show ?case
    by (auto simp: ack_inv_def final_acks_def ack_versions_def dest!: create_po_Inr)
next
  case (6 pid date res s')
  with inv show ?case
    by (auto simp: ack_inv_def final_acks_def ack_versions_def dest!: receive_po_Inr)
next
  case (7 pid res s')
  with inv show ?case
    by (auto simp: ack_inv_def final_acks_def ack_versions_def dest!: create_bill_Inr)
next
  case (8 bid reference now res s')
  with inv show ?case
    by (auto simp: ack_inv_def final_acks_def ack_versions_def dest!: pay_bill_Inr)
next
  case (9 name res s')
  with inv show ?case
    by (auto simp: ack_inv_def final_acks_def ack_versions_def dest!: create_client_Inr)
next
  case (10 cid iid qty price res s')
  with inv show ?case
    by (auto simp: ack_inv_def final_acks_def ack_versions_def dest!: create_quote_Inr)
next
  case (11 qid price res s')
  with inv show ?case
    by (auto simp: ack_inv_def final_acks_def ack_versions_def dest!: revise_quote_Inr)
next
  case (12 qid res s')
  with inv show ?case
    by (auto simp: ack_inv_def final_acks_def ack_versions_def dest!: accept_quote_Inr)
next
  case (13 cid iid qty price res s')
  with inv show ?case
    by (auto simp: ack_inv_def final_acks_def ack_versions_def dest!: create_sales_order_Inr)
next
  case (14 sid date qty res s')
  with inv show ?case
    by (auto simp: ack_inv_def final_acks_def ack_versions_def dest!: deliver_sales_order_Inr)
next
  case (15 sid res s')
  with inv show ?case
    by (auto simp: ack_inv_def final_acks_def ack_versions_def dest!: cancel_sales_order_Inr)
next
  case (16 vid res s')
  with inv show ?case
    by (auto simp: ack_inv_def final_acks_def ack_versions_def dest!: void_invoice_Inr)
qed

lemma ack_inv_run: "ack_inv (run empty_db rs)"
proof (rule run_preserves[of ack_inv])
  show "ack_inv empty_db" by (simp add: ack_inv_def empty_db_def final_acks_def ack_versions_def)
qed (rule ack_inv_step)





lemma in_set_mapI: "x \<in> set xs \<Longrightarrow> g x \<in> set (map g xs)"
  by simp

lemma find_append_eq:
  "find P (xs @ ys) = (case find P xs of None \<Rightarrow> find P ys | Some x \<Rightarrow> Some x)"
  by (induction xs) auto

lemma keys_below_mono: "keys_below n pk xs \<Longrightarrow> n \<le> m \<Longrightarrow> keys_below m pk xs"
  by (fastforce simp: keys_below_def)

lemma keys_below_Nil [simp]: "keys_below n pk []"
  by (simp add: keys_below_def)

lemma keys_below_snoc:
  "keys_below n pk (xs @ [x]) = (keys_below n pk xs \<and> (\<exists>i. pk x = Some i \<and> i < n))"
  by (auto simp: keys_below_def)

lemma keys_below_modify_first:
  "(\<And>x. pk (f x) = pk x) \<Longrightarrow> keys_below n pk (modify_first P f xs) = keys_below n pk xs"
  by (simp add: keys_below_def image_modify_first)

lemma keys_below_map:
  "(\<And>x. pk (g x) = pk x) \<Longrightarrow> keys_below n pk (map g xs) = keys_below n pk xs"
  by (simp add: keys_below_def image_image)

lemma keys_below_fresh: "keys_below n pk xs \<Longrightarrow> n \<le> m \<Longrightarrow> Some m \<notin> pk ` set xs"
  by (fastforce simp: keys_below_def)

lemma keys_below_find_None:
  "keys_below n pk xs \<Longrightarrow> n \<le> m \<Longrightarrow> find (\<lambda>x. pk x = Some m) xs = None"
  by (fastforce simp: keys_below_def find_None_iff)

lemma keys_below_Suc: "keys_below n pk xs \<Longrightarrow> keys_below (Suc n) pk xs"
  using keys_below_mono[of n pk xs "Suc n"] by simp

lemma find_distinct_key:
  "distinct (map pk xs) \<Longrightarrow> x \<in> set xs \<Longrightarrow> find (\<lambda>a. pk a = pk x) xs = Some x"
  by (induction xs) (auto simp: image_iff)

lemma bill_inv_frame:
  assumes "bill_inv s" "bills s' = bills s" "acknowledgements s' = acknowledgements s"
    "next_uuid s \<le> next_uuid s'"
  shows "bill_inv s'"
  using assms by (auto simp: bill_inv_def intro: keys_below_mono)

lemma bill_inv_acknowledge_po:
  assumes inv: "bill_inv s" and ok: "acknowledge_po s pid price action = Inr (res, s')"
  shows "bill_inv s'"
proof -
  from acknowledge_po_Inr[OF ok] have
    b: "bills s' = bills s"
    and acks: "acknowledgements s' =
       (if lower action = ''accepted'' then map (supersede pid) (acknowledgements s) @ [res]
        else acknowledgements s @ [res])"
    and n: "next_uuid s' = (if lower action = ''accepted'' then next_uuid s + 2 else next_uuid s + 1)"
    and r: "ack_id res = Some (if lower action = ''accepted'' then next_uuid s + 1 else next_uuid s)"
    by (auto simp: supersede_def[abs_def] split: if_splits)
  from inv have k: "keys_below (next_uuid s) ack_id (acknowledgements s)"
    and kb: "keys_below (next_uuid s) bill_id (bills s)"
    and d: "distinct (map ack_id (acknowledgements s))" by (simp_all add: bill_inv_def)
  have m: "map ack_id (map (supersede pid) (acknowledgements s)) = map ack_id (acknowledgements s)"
    by simp
  have f1: "Some (next_uuid s) \<notin> ack_id ` set (acknowledgements s)"
    by (rule keys_below_fresh[OF k]) simp
  have f2: "Some (next_uuid s + 1) \<notin> ack_id ` set (acknowledgements s)"
    by (rule keys_below_fresh[OF k]) simp
  have "keys_below (next_uuid s') bill_id (bills s')"
    unfolding b using kb n by (auto intro: keys_below_mono)
  moreover have "keys_below (next_uuid s') ack_id (acknowledgements s')"
    using keys_below_mono[OF k, of "next_uuid s'"] n r
    by (auto simp: acks keys_below_snoc keys_below_map)
  moreover have "distinct (map ack_id (acknowledgements s'))"
    using d f1 f2 r by (auto simp: acks m simp del: map_map)
  ultimately show ?thesis by (simp add: bill_inv_def)
qed

lemma bill_inv_create_bill:
  assumes inv: "bill_inv s" and ok: "create_bill s pid = Inr (res, s')"
  shows "bill_inv s'"
  using inv create_bill_Inr[OF ok]
  by (auto simp: bill_inv_def keys_below_snoc intro: keys_below_Suc)

lemma bill_inv_pay_bill:
  assumes inv: "bill_inv s" and ok: "pay_bill s bid reference now = Inr (res, s')"
  shows "bill_inv s'"
  using inv pay_bill_Inr[OF ok]
  by (auto simp: bill_inv_def keys_below_modify_first)

lemma bill_inv_step:
  assumes inv: "bill_inv s"
  shows "bill_inv (step s r)"
proof (rule step_preserves[of bill_inv, OF inv], goal_cases)
  case (5 pid price action res s')
  then show ?case by (rule bill_inv_acknowledge_po[OF inv])
next
  case (7 pid res s')
  then show ?case by (rule bill_inv_create_bill[OF inv])
next
  case (8 bid reference now res s')
  then show ?case by (rule bill_inv_pay_bill[OF inv])
next
  case (1 name qty r ss res s')
  then show ?case
    by (intro bill_inv_frame[OF inv]) (auto dest!: create_inventory_item_Inr)
next
  case (2 iid ty qty reason res s')
  then show ?case
    by (intro bill_inv_frame[OF inv]) (auto dest!: adjust_inventory_item_Inr)
next
  case (3 name disc res s')
  then show ?case
    by (intro bill_inv_frame[OF inv]) (auto dest!: create_supplier_Inr)
next
  case (4 sid iid qty price res s')
  then show ?case
    by (intro bill_inv_frame[OF inv]) (auto dest!: create_po_Inr)
next
  case (6 pid date res s')
  then show ?case
    by (intro bill_inv_frame[OF inv]) (auto dest!: receive_po_Inr)
next
  case (9 name res s')
  then show ?case
    by (intro bill_inv_frame[OF inv]) (auto dest!: create_client_Inr)
next
  case (10 cid iid qty price res s')
  then show ?case
    by (intro bill_inv_frame[OF inv]) (auto dest!: create_quote_Inr)
next
  case (11 qid price res s')
  then show ?case
    by (intro bill_inv_frame[OF inv]) (auto dest!: revise_quote_Inr)
next
  case (12 qid res s')
  then show ?case
    by (intro bill_inv_frame[OF inv]) (auto dest!: accept_quote_Inr)
next
  case (13 cid iid qty price res s')
  then show ?case
    by (intro bill_inv_frame[OF inv]) (auto dest!: create_sales_order_Inr)
next
  case (14 sid date qty res s')
  then show ?case
    by (intro bill_inv_frame[OF inv]) (auto dest!: deliver_sales_order_Inr)
next
  case (15 sid res s')
  then show ?case
    by (intro bill_inv_frame[OF inv]) (auto dest!: cancel_sales_order_Inr)
next
  case (16 vid res s')
  then show ?case
    by (intro bill_inv_frame[OF inv]) (auto dest!: void_invoice_Inr)
qed

lemma bill_inv_run: "bill_inv (run empty_db rs)"
proof (rule run_preserves[of bill_inv])
  show "bill_inv empty_db" by (simp add: bill_inv_def empty_db_def)
qed (rule bill_inv_step)

lemma pay_bill_ok:
  assumes "valid_BillPaymentRequest reference"
    and "find (\<lambda>b. bill_id b = Some bid) (bills s) = Some bill"
    and "bill_payment_status bill \<noteq> ''paid''"
    and "find (\<lambda>p. po_id p = Some (bill_po_id bill)) (purchase_orders s) = Some po"
    and "find (\<lambda>a. ack_id a = bill_ack_id bill) (acknowledgements s) = Some final_ack"
    and "ack_final_price_per_item final_ack = Some price"
    and "find (\<lambda>x. supplier_id x = Some (po_supplier_id po)) (suppliers s) = Some supplier"
  shows "pay_bill s bid reference now =
     Inr (bill\<lparr>bill_payment_status := ''paid'', payment_reference := Some reference,
               paid_at := Some now\<rparr>,
          s\<lparr>bills :=
              modify_first (\<lambda>b. bill_id b = Some bid)
                (\<lambda>b. b\<lparr>bill_payment_status := ''paid'', payment_reference := Some reference,
                        paid_at := Some now\<rparr>) (bills s),
            suppliers :=
              modify_first (\<lambda>x. supplier_id x = Some (po_supplier_id po))
                (\<lambda>x. x\<lparr>supplier_account_balance :=
                          decimal_sub (supplier_account_balance x)
                               (decimal_mul (of_int (po_qty_ordered po)) price)\<rparr>)
                (suppliers s)\<rparr>)"
  using assms by (simp add: pay_bill_def Let_def)

lemma map_if_key_absent:
  "Some k \<notin> pk ` set xs \<Longrightarrow> map (\<lambda>x. if pk x = Some k then f x else x) xs = xs"
  by (induction xs) auto

lemma modify_first_distinct:
  "distinct (map pk xs) \<Longrightarrow>
   modify_first (\<lambda>x. pk x = Some k) f xs = map (\<lambda>x. if pk x = Some k then f x else x) xs"
proof (induction xs)
  case Nil
  then show ?case by simp
next
  case (Cons x xs)
  show ?case
  proof (cases "pk x = Some k")
    case True
    with Cons.prems have "Some k \<notin> pk ` set xs" by auto
    with True show ?thesis by (simp add: map_if_key_absent)
  next
    case False
    with Cons show ?thesis by simp
  qed
qed

lemma distinct_key_unique:
  "distinct (map pk xs) \<Longrightarrow> x \<in> set xs \<Longrightarrow> y \<in> set xs \<Longrightarrow> pk x = pk y \<Longrightarrow> x = y"
  by (induction xs) (auto simp: image_iff)

lemma total_delivered_fresh:
  "\<forall>d\<in>set (delivery_outbound s). do_so_id d < n \<Longrightarrow> n \<le> k \<Longrightarrow> total_delivered s k = 0"
proof -
  assume a: "\<forall>d\<in>set (delivery_outbound s). do_so_id d < n" "n \<le> k"
  then have "filter (\<lambda>d. do_so_id d = k) (delivery_outbound s) = []"
    by (auto simp: filter_empty_conv)
  then show ?thesis by (simp add: total_delivered_def)
qed

lemma deliv_inv_frame:
  assumes "deliv_inv s" "sales_orders s' = sales_orders s"
    "delivery_outbound s' = delivery_outbound s" "next_uuid s \<le> next_uuid s'"
  shows "deliv_inv s'"
  using assms
  by (auto simp: deliv_inv_def total_delivered_def intro: keys_below_mono)

lemma deliv_inv_new_order:
  assumes inv: "deliv_inv s"
    and so: "so_id so = Some (next_uuid s)" "order_status so = ''confirmed''"
    and s': "sales_orders s' = sales_orders s @ [so]"
      "delivery_outbound s' = delivery_outbound s" "next_uuid s' = next_uuid s + 2"
  shows "deliv_inv s'"
proof -
  from inv have k: "keys_below (next_uuid s) so_id (sales_orders s)"
    and d: "distinct (map so_id (sales_orders s))"
    and b: "\<forall>d\<in>set (delivery_outbound s). do_so_id d < next_uuid s"
    and ok: "\<forall>x\<in>set (sales_orders s). \<forall>k. so_id x = Some k \<longrightarrow> so_ok (total_delivered s k) x"
    by (simp_all add: deliv_inv_def)
  have t: "total_delivered s' k = total_delivered s k" for k
    by (simp add: total_delivered_def s')
  have fresh: "Some (next_uuid s) \<notin> so_id ` set (sales_orders s)"
    by (rule keys_below_fresh[OF k]) simp
  have z: "total_delivered s (next_uuid s) = 0"
    by (rule total_delivered_fresh[OF b]) simp
  have "keys_below (next_uuid s') so_id (sales_orders s')"
    using keys_below_mono[OF k, of "next_uuid s + 2"] so by (simp add: s' keys_below_snoc)
  moreover have "distinct (map so_id (sales_orders s'))"
    using d fresh so by (simp add: s')
  moreover have "\<forall>d\<in>set (delivery_outbound s'). do_so_id d < next_uuid s'"
    using b by (auto simp: s')
  moreover have "\<forall>x\<in>set (sales_orders s'). \<forall>k. so_id x = Some k \<longrightarrow> so_ok (total_delivered s' k) x"
    using ok so z by (auto simp: s' t so_ok_def)
  ultimately show ?thesis by (simp add: deliv_inv_def)
qed

lemma deliv_inv_accept_quote:
  assumes inv: "deliv_inv s" and ok: "accept_quote s qid = Inr (res, s')"
  shows "deliv_inv s'"
  using accept_quote_Inr[OF ok]
  by (elim exE conjE) (rule deliv_inv_new_order[OF inv], simp_all)

lemma deliv_inv_create_sales_order:
  assumes inv: "deliv_inv s" and ok: "create_sales_order s cid iid qty price = Inr (res, s')"
  shows "deliv_inv s'"
  using create_sales_order_Inr[OF ok]
  by (elim exE conjE) (rule deliv_inv_new_order[OF inv], simp_all)

lemma deliv_inv_deliver_sales_order:
  assumes inv: "deliv_inv s" and ok: "deliver_sales_order s sid date qty = Inr (res, s')"
  shows "deliv_inv s'"
proof -
  from inv have k: "keys_below (next_uuid s) so_id (sales_orders s)"
    and d: "distinct (map so_id (sales_orders s))"
    and b: "\<forall>d\<in>set (delivery_outbound s). do_so_id d < next_uuid s"
    and ok': "\<forall>x\<in>set (sales_orders s). \<forall>k. so_id x = Some k \<longrightarrow> so_ok (total_delivered s k) x"
    by (simp_all add: deliv_inv_def)
  let ?st = "\<lambda>so. if total_delivered s sid + qty < so_qty_ordered so
                   then ''partially_delivered'' else ''delivered''"
  from deliver_sales_order_Inr[OF ok] obtain so where
    v: "0 < qty" and f: "find (\<lambda>x. so_id x = Some sid) (sales_orders s) = Some so"
    and st: "order_status so \<noteq> ''cancelled''" "order_status so \<noteq> ''delivered''"
    and le: "total_delivered s sid + qty \<le> so_qty_ordered so"
    and sos: "sales_orders s' = modify_first (\<lambda>x. so_id x = Some sid)
                   (\<lambda>x. x\<lparr>order_status := ?st so\<rparr>) (sales_orders s)"
    and dos: "delivery_outbound s' = delivery_outbound s @ [res]"
    and r: "do_so_id res = sid" "delivered_qty res = qty"
    and n: "next_uuid s' = next_uuid s + 1"
    by (auto simp: valid_DeliveryOutboundRequest_def)
  from f have so: "so \<in> set (sales_orders s)" "so_id so = Some sid" by (auto dest: find_SomeD)
  from k so have sid: "sid < next_uuid s" by (fastforce simp: keys_below_def)
  have t: "total_delivered s' k = total_delivered s k + (if k = sid then qty else 0)" for k
    by (simp add: total_delivered_def dos r)
  have sos': "sales_orders s' = map (\<lambda>x. if so_id x = Some sid then x\<lparr>order_status := ?st so\<rparr> else x)
       (sales_orders s)"
    unfolding sos by (rule modify_first_distinct[OF d])
  have "keys_below (next_uuid s') so_id (sales_orders s')"
    using keys_below_mono[OF k, of "next_uuid s'"] n by (simp add: sos keys_below_modify_first)
  moreover have "distinct (map so_id (sales_orders s'))"
    using d by (simp add: sos map_modify_first)
  moreover have "\<forall>d\<in>set (delivery_outbound s'). do_so_id d < next_uuid s'"
    using b sid r n by (auto simp: dos)
  moreover have "\<forall>x\<in>set (sales_orders s'). \<forall>k. so_id x = Some k \<longrightarrow> so_ok (total_delivered s' k) x"
  proof (intro ballI allI impI)
    fix x' k assume x': "x' \<in> set (sales_orders s')" and kk: "so_id x' = Some k"
    from x' obtain x where x: "x \<in> set (sales_orders s)"
      and xe: "x' = (if so_id x = Some sid then x\<lparr>order_status := ?st so\<rparr> else x)"
      unfolding sos' by auto
    show "so_ok (total_delivered s' k) x'"
    proof (cases "so_id x = Some sid")
      case True
      with x so d have "x = so" by (auto intro: distinct_key_unique)
      moreover from True xe kk have "k = sid" by simp
      moreover from ok' so have "so_ok (total_delivered s sid) so" by blast
      ultimately show ?thesis using st le v True xe
        by (auto simp: so_ok_def t)
    next
      case False
      with xe kk have "x' = x" "k \<noteq> sid" "so_id x = Some k" by auto
      with ok' x show ?thesis by (auto simp: t)
    qed
  qed
  ultimately show ?thesis by (simp add: deliv_inv_def)
qed

lemma deliv_inv_cancel_sales_order:
  assumes inv: "deliv_inv s" and ok: "cancel_sales_order s sid = Inr (res, s')"
  shows "deliv_inv s'"
proof -
  from inv have k: "keys_below (next_uuid s) so_id (sales_orders s)"
    and d: "distinct (map so_id (sales_orders s))"
    and b: "\<forall>d\<in>set (delivery_outbound s). do_so_id d < next_uuid s"
    and ok': "\<forall>x\<in>set (sales_orders s). \<forall>k. so_id x = Some k \<longrightarrow> so_ok (total_delivered s k) x"
    by (simp_all add: deliv_inv_def)
  from cancel_sales_order_Inr[OF ok] obtain so where
    f: "find (\<lambda>x. so_id x = Some sid) (sales_orders s) = Some so"
    and st: "order_status so \<noteq> ''delivered''" "order_status so \<noteq> ''partially_delivered''"
    and sos: "sales_orders s' = modify_first (\<lambda>x. so_id x = Some sid)
                   (\<lambda>x. x\<lparr>order_status := ''cancelled''\<rparr>) (sales_orders s)"
    and dos: "delivery_outbound s' = delivery_outbound s"
    and n: "next_uuid s' = next_uuid s"
    by auto
  from f have so: "so \<in> set (sales_orders s)" "so_id so = Some sid" by (auto dest: find_SomeD)
  have t: "total_delivered s' k = total_delivered s k" for k
    by (simp add: total_delivered_def dos)
  have sos': "sales_orders s' = map (\<lambda>x. if so_id x = Some sid then x\<lparr>order_status := ''cancelled''\<rparr> else x)
       (sales_orders s)"
    unfolding sos by (rule modify_first_distinct[OF d])
  have "keys_below (next_uuid s') so_id (sales_orders s')"
    using k n by (simp add: sos keys_below_modify_first)
  moreover have "distinct (map so_id (sales_orders s'))"
    using d by (simp add: sos map_modify_first)
  moreover have "\<forall>d\<in>set (delivery_outbound s'). do_so_id d < next_uuid s'"
    using b n by (auto simp: dos)
  moreover have "\<forall>x\<in>set (sales_orders s'). \<forall>k. so_id x = Some k \<longrightarrow> so_ok (total_delivered s' k) x"
  proof (intro ballI allI impI)
    fix x' k assume x': "x' \<in> set (sales_orders s')" and kk: "so_id x' = Some k"
    from x' obtain x where x: "x \<in> set (sales_orders s)"
      and xe: "x' = (if so_id x = Some sid then x\<lparr>order_status := ''cancelled''\<rparr> else x)"
      unfolding sos' by auto
    show "so_ok (total_delivered s' k) x'"
    proof (cases "so_id x = Some sid")
      case True
      with x so d have "x = so" by (auto intro: distinct_key_unique)
      moreover from True xe kk have "k = sid" by simp
      moreover from ok' so have "so_ok (total_delivered s sid) so" by blast
      ultimately show ?thesis using st True xe
        by (auto simp: so_ok_def t)
    next
      case False
      with xe kk have "x' = x" "so_id x = Some k" by auto
      with ok' x show ?thesis by (auto simp: t)
    qed
  qed
  ultimately show ?thesis by (simp add: deliv_inv_def)
qed

lemma deliv_inv_step:
  assumes inv: "deliv_inv s"
  shows "deliv_inv (step s r)"
proof (rule step_preserves[of deliv_inv, OF inv], goal_cases)
  case (12 qid res s')
  then show ?case by (rule deliv_inv_accept_quote[OF inv])
next
  case (13 cid iid qty price res s')
  then show ?case by (rule deliv_inv_create_sales_order[OF inv])
next
  case (14 sid date qty res s')
  then show ?case by (rule deliv_inv_deliver_sales_order[OF inv])
next
  case (15 sid res s')
  then show ?case by (rule deliv_inv_cancel_sales_order[OF inv])
next
  case (1 name qty r ss res s')
  then show ?case
    by (intro deliv_inv_frame[OF inv]) (auto dest!: create_inventory_item_Inr)
next
  case (2 iid ty qty reason res s')
  then show ?case
    by (intro deliv_inv_frame[OF inv]) (auto dest!: adjust_inventory_item_Inr)
next
  case (3 name disc res s')
  then show ?case
    by (intro deliv_inv_frame[OF inv]) (auto dest!: create_supplier_Inr)
next
  case (4 sid iid qty price res s')
  then show ?case
    by (intro deliv_inv_frame[OF inv]) (auto dest!: create_po_Inr)
next
  case (5 pid price action res s')
  then show ?case
    by (intro deliv_inv_frame[OF inv]) (auto dest!: acknowledge_po_Inr split: if_splits)
next
  case (6 pid date res s')
  then show ?case
    by (intro deliv_inv_frame[OF inv]) (auto dest!: receive_po_Inr)
next
  case (7 pid res s')
  then show ?case
    by (intro deliv_inv_frame[OF inv]) (auto dest!: create_bill_Inr)
next
  case (8 bid reference now res s')
  then show ?case
    by (intro deliv_inv_frame[OF inv]) (auto dest!: pay_bill_Inr)
next
  case (9 name res s')
  then show ?case
    by (intro deliv_inv_frame[OF inv]) (auto dest!: create_client_Inr)
next
  case (10 cid iid qty price res s')
  then show ?case
    by (intro deliv_inv_frame[OF inv]) (auto dest!: create_quote_Inr)
next
  case (11 qid price res s')
  then show ?case
    by (intro deliv_inv_frame[OF inv]) (auto dest!: revise_quote_Inr)
next
  case (16 vid res s')
  then show ?case
    by (intro deliv_inv_frame[OF inv]) (auto dest!: void_invoice_Inr)
qed

lemma deliv_inv_run: "deliv_inv (run empty_db rs)"
proof (rule run_preserves[of deliv_inv])
  show "deliv_inv empty_db" by (simp add: deliv_inv_def empty_db_def)
qed (rule deliv_inv_step)

section \<open>The claims\<close>

text \<open>
  C1. The quantity of a stock item is never negative. In every database that a
  sequence of requests builds from the empty one, every item has
  \<open>item_qty \<ge> 0\<close>; every request keeps the quantities non-negative (together with
  the positivity of the ordered quantities, which the stock adjustment, the receipt of
  a purchase order, the acceptance of a quote, the direct sales order and the
  cancellation rely on); and an adjustment whose result would be negative raises
  HTTP 400 and leaves the database as it was.
\<close>

theorem stock_quantity_never_negative:
  "(\<forall>i\<in>set (stock_items (run empty_db rs)). 0 \<le> item_qty i) \<and>
   (qty_inv s \<longrightarrow> qty_inv (step s r)) \<and>
   (valid_StockAdjustmentCreate quantity reason \<and>
    find (\<lambda>i. item_id i = Some iid) (stock_items s) = Some item \<and>
    item_qty item + (if ty = increase then quantity else - quantity) < 0 \<longrightarrow>
      adjust_inventory_item s iid ty quantity reason =
        Inl (HTTPException 400 ''Stock adjustment would result in negative inventory'') \<and>
      step s (AdjustInventoryItem iid ty quantity reason) = s)"
proof (intro conjI impI)
  show "\<forall>i\<in>set (stock_items (run empty_db rs)). 0 \<le> item_qty i"
    using qty_inv_run[of rs] by (simp add: qty_inv_def)
next
  assume "qty_inv s"
  then show "qty_inv (step s r)" by (rule qty_inv_step)
next
  assume h: "valid_StockAdjustmentCreate quantity reason \<and>
    find (\<lambda>i. item_id i = Some iid) (stock_items s) = Some item \<and>
    item_qty item + (if ty = increase then quantity else - quantity) < 0"
  then show rej: "adjust_inventory_item s iid ty quantity reason =
        Inl (HTTPException 400 ''Stock adjustment would result in negative inventory'')"
    by (simp add: adjust_inventory_item_def Let_def)
  then show "step s (AdjustInventoryItem iid ty quantity reason) = s"
    by simp
qed

theorem stock_quantity_never_negative_witness:
  "map item_qty (stock_items (run empty_db sales_run)) = [10] \<and>
   qty_inv (run empty_db sales_run) \<and>
   qty_inv (step (run empty_db sales_run) (CancelSalesOrder 2)) \<and>
   valid_StockAdjustmentCreate 11 ''shrinkage'' \<and>
   find (\<lambda>i. item_id i = Some 1) (stock_items (run empty_db sales_run)) =
     Some \<lparr>item_id = Some 1, item_name = ''bolt'', item_qty = 10, rate = 2,
           safety_stock = Some 20\<rparr> \<and>
   adjust_inventory_item (run empty_db sales_run) 1 decrease 11 ''shrinkage'' =
     Inl (HTTPException 400 ''Stock adjustment would result in negative inventory'') \<and>
   step (run empty_db sales_run) (AdjustInventoryItem 1 decrease 11 ''shrinkage'') =
     run empty_db sales_run"
proof -
  have h: "qty_inv (run empty_db sales_run) \<and>
    map item_qty (stock_items (run empty_db sales_run)) = [10] \<and>
    valid_StockAdjustmentCreate 11 ''shrinkage'' \<and>
    find (\<lambda>i. item_id i = Some 1) (stock_items (run empty_db sales_run)) =
     Some \<lparr>item_id = Some 1, item_name = ''bolt'', item_qty = 10, rate = 2,
           safety_stock = Some 20\<rparr>"
    by code_simp
  show ?thesis
    using h stock_quantity_never_negative[of sales_run "run empty_db sales_run"
        "CancelSalesOrder 2" 11 "''shrinkage''" 1
        "\<lparr>item_id = Some 1, item_name = ''bolt'', item_qty = 10, rate = 2,
           safety_stock = Some 20\<rparr>" decrease]
    by simp
qed

text \<open>
  C8. Accepting a quote, or creating a direct sales order, when the item has less in
  stock than the ordered quantity raises HTTP 400 and changes nothing: the database
  after the request is the database before it, so no sales order and no invoice is
  created and neither the stock nor the client balance moves. For a quote that is
  neither accepted nor final the detail is "Insufficient inventory"; the two earlier
  guards of \<^verbatim>\<open>accept_quote\<close> answer 400 as well.
\<close>

theorem insufficient_inventory_is_noop:
  "(find (\<lambda>q. quote_id q = Some qid) (quotes s) = Some quote \<and>
    find (\<lambda>i. item_id i = Some (q_item_id quote)) (stock_items s) = Some item \<and>
    item_qty item < order_qty quote \<longrightarrow>
      accept_quote s qid =
        Inl (HTTPException 400
              (if q_status quote = ''accepted'' then ''Quote already accepted''
               else if q_is_final quote then ''Quote already finalized''
               else ''Insufficient inventory'')) \<and>
      step s (AcceptQuote qid) = s) \<and>
   (valid_SalesOrderCreate qty price \<and>
    find (\<lambda>i. item_id i = Some iid) (stock_items s) = Some item' \<and>
    item_qty item' < qty \<longrightarrow>
      create_sales_order s cid iid qty price = Inl (HTTPException 400 ''Insufficient inventory'') \<and>
      step s (CreateSalesOrder cid iid qty price) = s)"
  by (simp add: accept_quote_def create_sales_order_def)

theorem insufficient_inventory_is_noop_witness:
  "find (\<lambda>q. quote_id q = Some 2) (quotes (run empty_db quote_run)) =
     Some \<lparr>quote_id = Some 2, q_client_id = 0, q_item_id = 1, order_qty = 200,
           q_final_price_per_item = 5, q_status = ''sent'', q_version = 1,
           q_is_final = False, superseded_by = None\<rparr> \<and>
   find (\<lambda>i. item_id i = Some 1) (stock_items (run empty_db quote_run)) =
     Some \<lparr>item_id = Some 1, item_name = ''bolt'', item_qty = 100, rate = 2,
           safety_stock = Some 20\<rparr> \<and>
   accept_quote (run empty_db quote_run) 2 = Inl (HTTPException 400 ''Insufficient inventory'') \<and>
   step (run empty_db quote_run) (AcceptQuote 2) = run empty_db quote_run \<and>
   valid_SalesOrderCreate 101 5 \<and>
   create_sales_order (run empty_db quote_run) 0 1 101 5 =
     Inl (HTTPException 400 ''Insufficient inventory'') \<and>
   step (run empty_db quote_run) (CreateSalesOrder 0 1 101 5) = run empty_db quote_run"
proof -
  have h: "find (\<lambda>q. quote_id q = Some 2) (quotes (run empty_db quote_run)) =
     Some \<lparr>quote_id = Some 2, q_client_id = 0, q_item_id = 1, order_qty = 200,
           q_final_price_per_item = 5, q_status = ''sent'', q_version = 1,
           q_is_final = False, superseded_by = None\<rparr> \<and>
   find (\<lambda>i. item_id i = Some 1) (stock_items (run empty_db quote_run)) =
     Some \<lparr>item_id = Some 1, item_name = ''bolt'', item_qty = 100, rate = 2,
           safety_stock = Some 20\<rparr> \<and>
   valid_SalesOrderCreate 101 5"
    by code_simp
  show ?thesis
    using h insufficient_inventory_is_noop[of 2 "run empty_db quote_run"
        "\<lparr>quote_id = Some 2, q_client_id = 0, q_item_id = 1, order_qty = 200,
           q_final_price_per_item = 5, q_status = ''sent'', q_version = 1,
           q_is_final = False, superseded_by = None\<rparr>"
        "\<lparr>item_id = Some 1, item_name = ''bolt'', item_qty = 100, rate = 2,
           safety_stock = Some 20\<rparr>" 101 5 1
        "\<lparr>item_id = Some 1, item_name = ''bolt'', item_qty = 100, rate = 2,
           safety_stock = Some 20\<rparr>" 0]
    by (simp del: step.simps)
qed

text \<open>
  C10. In a database built by requests, cancelling a sales order is rejected with
  HTTP 400 exactly when its status is \<^verbatim>\<open>delivered\<close> or
  \<^verbatim>\<open>partially_delivered\<close>. In every other status, \<^verbatim>\<open>cancelled\<close> included, the
  cancellation succeeds, adds the ordered quantity to the stock of the item and sets
  the status \<^verbatim>\<open>cancelled\<close>; cancelling the same order once more adds the ordered
  quantity again.
\<close>

theorem cancel_sales_order_behaviour:
  assumes "find (\<lambda>x. so_id x = Some sid) (sales_orders (run empty_db rs)) = Some so"
  shows "(order_status so \<in> {''delivered'', ''partially_delivered''} \<longrightarrow>
            cancel_sales_order (run empty_db rs) sid =
              Inl (HTTPException 400 ''Cannot cancel delivered order'') \<and>
            step (run empty_db rs) (CancelSalesOrder sid) = run empty_db rs) \<and>
         (order_status so \<notin> {''delivered'', ''partially_delivered''} \<longrightarrow>
            (\<exists>q. stock_qty (run empty_db rs) (so_item_id so) = Some q \<and>
                 cancel_sales_order (run empty_db rs) sid =
                   Inr (''Sales Order cancelled'', step (run empty_db rs) (CancelSalesOrder sid)) \<and>
                 stock_qty (step (run empty_db rs) (CancelSalesOrder sid)) (so_item_id so) =
                   Some (q + so_qty_ordered so) \<and>
                 so_status (step (run empty_db rs) (CancelSalesOrder sid)) sid = Some ''cancelled'' \<and>
                 stock_qty (step (step (run empty_db rs) (CancelSalesOrder sid))
                              (CancelSalesOrder sid)) (so_item_id so) =
                   Some (q + 2 * so_qty_ordered so)))"
proof (intro conjI impI)
  assume "order_status so \<in> {''delivered'', ''partially_delivered''}"
  with assms show rej: "cancel_sales_order (run empty_db rs) sid =
              Inl (HTTPException 400 ''Cannot cancel delivered order'')"
    by (simp add: cancel_sales_order_def)
  then show "step (run empty_db rs) (CancelSalesOrder sid) = run empty_db rs" by simp
next
  let ?s = "run empty_db rs"
  let ?f = "\<lambda>i. i\<lparr>item_qty := item_qty i + so_qty_ordered so\<rparr>"
  let ?g = "\<lambda>x. x\<lparr>order_status := ''cancelled''\<rparr>"
  let ?s1 = "?s\<lparr>stock_items := modify_first (\<lambda>i. item_id i = Some (so_item_id so)) ?f (stock_items ?s),
                 sales_orders := modify_first (\<lambda>x. so_id x = Some sid) ?g (sales_orders ?s)\<rparr>"
  let ?s2 = "?s1\<lparr>stock_items := modify_first (\<lambda>i. item_id i = Some (so_item_id so)) ?f (stock_items ?s1),
                 sales_orders := modify_first (\<lambda>x. so_id x = Some sid) ?g (sales_orders ?s1)\<rparr>"
  assume st: "order_status so \<notin> {''delivered'', ''partially_delivered''}"
  from so_item_found[OF assms] obtain item where
    item: "find (\<lambda>i. item_id i = Some (so_item_id so)) (stock_items ?s) = Some item" by blast
  have c1: "cancel_sales_order ?s sid = Inr (''Sales Order cancelled'', ?s1)"
    by (rule cancel_sales_order_ok[OF assms st item])
  then have s1: "step ?s (CancelSalesOrder sid) = ?s1" by simp
  have so1: "find (\<lambda>x. so_id x = Some sid) (sales_orders ?s1) = Some (?g so)"
    using assms by (simp add: find_modify_first_same)
  have item1: "find (\<lambda>i. item_id i = Some (so_item_id so)) (stock_items ?s1) = Some (?f item)"
    using item by (simp add: find_modify_first_same)
  have "cancel_sales_order ?s1 sid = Inr (''Sales Order cancelled'', ?s2)"
    using cancel_sales_order_ok[of sid ?s1 "?g so" "?f item"] so1 item1 by simp
  then have s2: "step ?s1 (CancelSalesOrder sid) = ?s2" by simp
  have item2: "find (\<lambda>i. item_id i = Some (so_item_id so)) (stock_items ?s2) = Some (?f (?f item))"
    using item by (simp add: find_modify_first_same)
  show "\<exists>q. stock_qty ?s (so_item_id so) = Some q \<and>
                 cancel_sales_order ?s sid =
                   Inr (''Sales Order cancelled'', step ?s (CancelSalesOrder sid)) \<and>
                 stock_qty (step ?s (CancelSalesOrder sid)) (so_item_id so) =
                   Some (q + so_qty_ordered so) \<and>
                 so_status (step ?s (CancelSalesOrder sid)) sid = Some ''cancelled'' \<and>
                 stock_qty (step (step ?s (CancelSalesOrder sid))
                              (CancelSalesOrder sid)) (so_item_id so) =
                   Some (q + 2 * so_qty_ordered so)"
    unfolding s1 s2
    by (rule exI[of _ "item_qty item"])
       (simp add: stock_qty_def so_status_def item assms find_modify_first_same c1 del: step.simps)
qed


theorem cancel_sales_order_behaviour_witness:
  "find (\<lambda>x. so_id x = Some 2) (sales_orders (run empty_db order_run)) =
     Some \<lparr>so_id = Some 2, so_client_id = 0, so_quote_id = None, so_item_id = 1,
           so_qty_ordered = 30, so_final_price_per_item = 5, order_status = ''confirmed'',
           so_invoice_id = Some 3\<rparr> \<and>
   stock_qty (run empty_db order_run) 1 = Some 70 \<and>
   cancel_sales_order (run empty_db order_run) 2 =
     Inr (''Sales Order cancelled'', step (run empty_db order_run) (CancelSalesOrder 2)) \<and>
   stock_qty (step (run empty_db order_run) (CancelSalesOrder 2)) 1 = Some 100 \<and>
   so_status (step (run empty_db order_run) (CancelSalesOrder 2)) 2 = Some ''cancelled'' \<and>
   stock_qty (step (step (run empty_db order_run) (CancelSalesOrder 2)) (CancelSalesOrder 2)) 1 =
     Some 130 \<and>
   find (\<lambda>x. so_id x = Some 2) (sales_orders (run empty_db delivery_run)) =
     Some \<lparr>so_id = Some 2, so_client_id = 0, so_quote_id = None, so_item_id = 1,
           so_qty_ordered = 30, so_final_price_per_item = 5, order_status = ''delivered'',
           so_invoice_id = Some 3\<rparr> \<and>
   cancel_sales_order (run empty_db delivery_run) 2 =
     Inl (HTTPException 400 ''Cannot cancel delivered order'') \<and>
   step (run empty_db delivery_run) (CancelSalesOrder 2) = run empty_db delivery_run"
proof -
  have h1: "find (\<lambda>x. so_id x = Some 2) (sales_orders (run empty_db order_run)) =
     Some \<lparr>so_id = Some 2, so_client_id = 0, so_quote_id = None, so_item_id = 1,
           so_qty_ordered = 30, so_final_price_per_item = 5, order_status = ''confirmed'',
           so_invoice_id = Some 3\<rparr>"
    by code_simp
  have h2: "find (\<lambda>x. so_id x = Some 2) (sales_orders (run empty_db delivery_run)) =
     Some \<lparr>so_id = Some 2, so_client_id = 0, so_quote_id = None, so_item_id = 1,
           so_qty_ordered = 30, so_final_price_per_item = 5, order_status = ''delivered'',
           so_invoice_id = Some 3\<rparr>"
    by code_simp
  have q: "stock_qty (run empty_db order_run) 1 = Some 70"
    by code_simp
  show ?thesis
    using h1 h2 q cancel_sales_order_behaviour[OF h1] cancel_sales_order_behaviour[OF h2]
    by (simp del: step.simps)
qed

text \<open>
  C4, as stated, fails at one point: a successful receipt does not mark the delivery
  that the acknowledgement opened in transit. In the procurement run the receipt
  succeeds and the delivery with id 3 is still \<^verbatim>\<open>in_transit\<close> afterwards.
\<close>

theorem receive_po_marks_in_transit_counterexample:
  "receive_po (run empty_db acknowledged_run) 2 7 =
     Inr ((Some 5, 150), run empty_db received_run) \<and>
   di_status_of (run empty_db acknowledged_run) 3 = Some ''in_transit'' \<and>
   di_status_of (run empty_db received_run) 3 = Some ''in_transit'' \<and>
   di_status_of (run empty_db received_run) 3 \<noteq> Some ''received''"
  by code_simp

text \<open>
  C4, amended. For a purchase order that exists: receiving it from any status other
  than \<^verbatim>\<open>acknowledged\<close> raises HTTP 400 and changes nothing; so does receiving it
  when a \<^verbatim>\<open>received\<close> delivery of the order exists. Otherwise, the item being
  found, the receipt succeeds: the stock of the item grows by exactly the ordered
  quantity, a new delivery with status \<^verbatim>\<open>received\<close> is appended to the deliveries,
  which are otherwise left as they were, and the order becomes \<^verbatim>\<open>received\<close>; a
  second receipt of the same order then raises HTTP 400 and changes nothing.
\<close>

theorem receive_po_behaviour:
  assumes "find (\<lambda>p. po_id p = Some pid) (purchase_orders s) = Some po"
  shows
   "(po_status po \<noteq> ''acknowledged'' \<longrightarrow>
       receive_po s pid date =
         Inl (HTTPException 400 ''PO must be acknowledged before receiving goods'') \<and>
       step s (ReceivePO pid date) = s) \<and>
    (po_status po = ''acknowledged'' \<and>
     find (\<lambda>i. item_id i = Some (po_item_id po)) (stock_items s) = Some item \<and>
     find (\<lambda>d. di_po_id d = pid \<and> di_status d = ''received'') (delivery_inbound s) = Some d \<longrightarrow>
       receive_po s pid date = Inl (HTTPException 400 ''Goods already received for this PO'') \<and>
       step s (ReceivePO pid date) = s) \<and>
    (po_status po = ''acknowledged'' \<and>
     find (\<lambda>i. item_id i = Some (po_item_id po)) (stock_items s) = Some item \<and>
     find (\<lambda>d. di_po_id d = pid \<and> di_status d = ''received'') (delivery_inbound s) = None \<longrightarrow>
       receive_po s pid date =
         Inr ((Some (next_uuid s), item_qty item + po_qty_ordered po),
              step s (ReceivePO pid date)) \<and>
       stock_qty (step s (ReceivePO pid date)) (po_item_id po) =
         Some (item_qty item + po_qty_ordered po) \<and>
       delivery_inbound (step s (ReceivePO pid date)) =
         delivery_inbound s @
           [\<lparr>delivery_inbound_id = Some (next_uuid s), di_po_id = pid,
             actual_date_of_delivery = Some date, di_status = ''received''\<rparr>] \<and>
       po_status_of (step s (ReceivePO pid date)) pid = Some ''received'' \<and>
       receive_po (step s (ReceivePO pid date)) pid date' =
         Inl (HTTPException 400 ''PO must be acknowledged before receiving goods'') \<and>
       step (step s (ReceivePO pid date)) (ReceivePO pid date') = step s (ReceivePO pid date))"
proof (intro conjI impI)
  assume "po_status po \<noteq> ''acknowledged''"
  with assms show e: "receive_po s pid date =
         Inl (HTTPException 400 ''PO must be acknowledged before receiving goods'')"
    by (simp add: receive_po_def)
  then show "step s (ReceivePO pid date) = s" by simp
next
  assume "po_status po = ''acknowledged'' \<and>
     find (\<lambda>i. item_id i = Some (po_item_id po)) (stock_items s) = Some item \<and>
     find (\<lambda>d. di_po_id d = pid \<and> di_status d = ''received'') (delivery_inbound s) = Some d"
  with assms show e: "receive_po s pid date = Inl (HTTPException 400 ''Goods already received for this PO'')"
    by (simp add: receive_po_def)
  then show "step s (ReceivePO pid date) = s" by simp
next
  let ?s1 = "s\<lparr>stock_items :=
                 modify_first (\<lambda>i. item_id i = Some (po_item_id po))
                   (\<lambda>i. i\<lparr>item_qty := item_qty item + po_qty_ordered po\<rparr>) (stock_items s),
               purchase_orders :=
                 modify_first (\<lambda>p. po_id p = Some pid)
                   (\<lambda>p. p\<lparr>po_status := ''received''\<rparr>) (purchase_orders s),
               delivery_inbound := delivery_inbound s @
                 [\<lparr>delivery_inbound_id = Some (next_uuid s), di_po_id = pid,
                   actual_date_of_delivery = Some date, di_status = ''received''\<rparr>],
               next_uuid := next_uuid s + 1\<rparr>"
  assume h: "po_status po = ''acknowledged'' \<and>
     find (\<lambda>i. item_id i = Some (po_item_id po)) (stock_items s) = Some item \<and>
     find (\<lambda>d. di_po_id d = pid \<and> di_status d = ''received'') (delivery_inbound s) = None"
  with assms have r: "receive_po s pid date =
      Inr ((Some (next_uuid s), item_qty item + po_qty_ordered po), ?s1)"
    by (simp add: receive_po_def Let_def)
  then have s1: "step s (ReceivePO pid date) = ?s1" by simp
  have po1: "find (\<lambda>p. po_id p = Some pid) (purchase_orders ?s1) = Some (po\<lparr>po_status := ''received''\<rparr>)"
    using assms by (simp add: find_modify_first_same)
  have e2: "receive_po ?s1 pid date' =
         Inl (HTTPException 400 ''PO must be acknowledged before receiving goods'')"
    unfolding receive_po_def po1 by simp
  show "receive_po s pid date =
         Inr ((Some (next_uuid s), item_qty item + po_qty_ordered po),
              step s (ReceivePO pid date))"
    unfolding s1 by (rule r)
  show "stock_qty (step s (ReceivePO pid date)) (po_item_id po) =
         Some (item_qty item + po_qty_ordered po)"
    unfolding s1 using h by (simp add: stock_qty_def find_modify_first_same)
  show "delivery_inbound (step s (ReceivePO pid date)) =
         delivery_inbound s @
           [\<lparr>delivery_inbound_id = Some (next_uuid s), di_po_id = pid,
             actual_date_of_delivery = Some date, di_status = ''received''\<rparr>]"
    unfolding s1 by simp
  show "po_status_of (step s (ReceivePO pid date)) pid = Some ''received''"
    unfolding s1 using assms by (simp add: po_status_of_def find_modify_first_same)
  show "receive_po (step s (ReceivePO pid date)) pid date' =
         Inl (HTTPException 400 ''PO must be acknowledged before receiving goods'')"
    unfolding s1 by (rule e2)
  then show "step (step s (ReceivePO pid date)) (ReceivePO pid date') = step s (ReceivePO pid date)"
    by simp
qed


theorem receive_po_behaviour_witness:
  "find (\<lambda>p. po_id p = Some 2) (purchase_orders (run empty_db acknowledged_run)) =
     Some \<lparr>po_id = Some 2, po_supplier_id = 0, po_item_id = 1, po_qty_ordered = 50,
           po_final_price_per_item = Some 9, po_status = ''acknowledged''\<rparr> \<and>
   find (\<lambda>i. item_id i = Some 1) (stock_items (run empty_db acknowledged_run)) =
     Some \<lparr>item_id = Some 1, item_name = ''bolt'', item_qty = 100, rate = 2,
           safety_stock = Some 20\<rparr> \<and>
   find (\<lambda>d. di_po_id d = 2 \<and> di_status d = ''received'')
     (delivery_inbound (run empty_db acknowledged_run)) = None \<and>
   receive_po (run empty_db acknowledged_run) 2 7 =
     Inr ((Some 5, 150), step (run empty_db acknowledged_run) (ReceivePO 2 7)) \<and>
   stock_qty (step (run empty_db acknowledged_run) (ReceivePO 2 7)) 1 = Some 150 \<and>
   po_status_of (step (run empty_db acknowledged_run) (ReceivePO 2 7)) 2 = Some ''received'' \<and>
   receive_po (step (run empty_db acknowledged_run) (ReceivePO 2 7)) 2 8 =
     Inl (HTTPException 400 ''PO must be acknowledged before receiving goods'') \<and>
   step (step (run empty_db acknowledged_run) (ReceivePO 2 7)) (ReceivePO 2 8) =
     step (run empty_db acknowledged_run) (ReceivePO 2 7) \<and>
   find (\<lambda>p. po_id p = Some 2) (purchase_orders (run empty_db (take 3 acknowledged_run))) =
     Some \<lparr>po_id = Some 2, po_supplier_id = 0, po_item_id = 1, po_qty_ordered = 50,
           po_final_price_per_item = Some 10, po_status = ''pending_price_negotiation''\<rparr> \<and>
   receive_po (run empty_db (take 3 acknowledged_run)) 2 7 =
     Inl (HTTPException 400 ''PO must be acknowledged before receiving goods'') \<and>
   find (\<lambda>d. di_po_id d = 2 \<and> di_status d = ''received'')
     (delivery_inbound ((run empty_db acknowledged_run)
        \<lparr>delivery_inbound := [\<lparr>delivery_inbound_id = Some 3, di_po_id = 2,
            actual_date_of_delivery = Some 6, di_status = ''received''\<rparr>]\<rparr>)) =
     Some \<lparr>delivery_inbound_id = Some 3, di_po_id = 2,
            actual_date_of_delivery = Some 6, di_status = ''received''\<rparr> \<and>
   receive_po ((run empty_db acknowledged_run)
        \<lparr>delivery_inbound := [\<lparr>delivery_inbound_id = Some 3, di_po_id = 2,
            actual_date_of_delivery = Some 6, di_status = ''received''\<rparr>]\<rparr>) 2 7 =
     Inl (HTTPException 400 ''Goods already received for this PO'')"
proof -
  let ?s = "run empty_db acknowledged_run"
  let ?po = "\<lparr>po_id = Some 2, po_supplier_id = 0, po_item_id = 1, po_qty_ordered = 50,
           po_final_price_per_item = Some 9, po_status = ''acknowledged''\<rparr>"
  let ?pending = "\<lparr>po_id = Some 2, po_supplier_id = 0, po_item_id = 1, po_qty_ordered = 50,
           po_final_price_per_item = Some 10, po_status = ''pending_price_negotiation''\<rparr>"
  let ?item = "\<lparr>item_id = Some 1, item_name = ''bolt'', item_qty = 100, rate = 2,
           safety_stock = Some 20\<rparr>"
  let ?d = "\<lparr>delivery_inbound_id = Some 3, di_po_id = 2,
            actual_date_of_delivery = Some 6, di_status = ''received''\<rparr>"
  let ?t = "?s\<lparr>delivery_inbound := [?d]\<rparr>"
  have po: "find (\<lambda>p. po_id p = Some 2) (purchase_orders ?s) = Some ?po" by code_simp
  have po0: "find (\<lambda>p. po_id p = Some 2) (purchase_orders (run empty_db (take 3 acknowledged_run))) = Some ?pending"
    by code_simp
  have pot: "find (\<lambda>p. po_id p = Some 2) (purchase_orders ?t) = Some ?po" using po by simp
  have h: "find (\<lambda>i. item_id i = Some 1) (stock_items ?s) = Some ?item \<and>
    find (\<lambda>d. di_po_id d = 2 \<and> di_status d = ''received'') (delivery_inbound ?s) = None \<and>
    next_uuid ?s = 5"
    by code_simp
  have ht: "find (\<lambda>i. item_id i = Some 1) (stock_items ?t) = Some ?item"
    using h by simp
  show ?thesis
    using po po0 h
      receive_po_behaviour[OF po, of 7 ?item ?d 8]
      receive_po_behaviour[OF po0, of 7 ?item ?d 8]
      receive_po_behaviour[OF pot, of 7 ?item ?d 8] ht
    by (simp del: step.simps)
qed

text \<open>
  C5 at a concrete quote. Revising quote 2 of the quote run to the price 4 returns a
  new quote (id 3) with version 2, the same client, item and quantity and the revised
  price, and marks quote 2 \<^verbatim>\<open>superseded\<close>; but the forward pointer
  \<open>superseded_by\<close> of quote 2 is \<open>None\<close>, not the id of the new quote.
\<close>

theorem revise_quote_forward_pointer_unset:
  "revise_quote (run empty_db quote_run) 2 4 =
     Inr (\<lparr>quote_id = Some 3, q_client_id = 0, q_item_id = 1, order_qty = 200,
            q_final_price_per_item = 4, q_status = ''revised'', q_version = 2,
            q_is_final = False, superseded_by = None\<rparr>,
          step (run empty_db quote_run) (ReviseQuote 2 4)) \<and>
   find (\<lambda>q. quote_id q = Some 2) (quotes (step (run empty_db quote_run) (ReviseQuote 2 4))) =
     Some \<lparr>quote_id = Some 2, q_client_id = 0, q_item_id = 1, order_qty = 200,
           q_final_price_per_item = 5, q_status = ''superseded'', q_version = 1,
           q_is_final = False, superseded_by = None\<rparr>"
  by code_simp

text \<open>
  C9 at a concrete purchase order. An acknowledgement with action \<^verbatim>\<open>accepted\<close> and
  no price is accepted: the order leaves the negotiation, is received, and both its
  price and the price of its final acknowledgement are \<open>None\<close>; creating the bill then
  multiplies the quantity by \<^verbatim>\<open>None\<close> and raises \<^verbatim>\<open>TypeError\<close>.
\<close>

theorem accepted_without_price_breaks_bill:
  "po_status_of (run empty_db null_price_run) 2 = Some ''received'' \<and>
   map po_final_price_per_item (purchase_orders (run empty_db null_price_run)) = [None] \<and>
   map ack_is_final (acknowledgements (run empty_db null_price_run)) = [True] \<and>
   map ack_final_price_per_item (acknowledgements (run empty_db null_price_run)) = [None] \<and>
   create_bill (run empty_db null_price_run) 2 = Inl TypeError"
  by code_simp

text \<open>
  C2, as stated, fails for quotes: a quote is revised, the revision is accepted, and
  then the superseded original is accepted as well (\<^verbatim>\<open>accept_quote\<close> looks at the
  status \<^verbatim>\<open>accepted\<close> and at \<^verbatim>\<open>is_final\<close> of the quote itself only). The client
  0 and the item 1 then have two final quotes.
\<close>

theorem two_final_quotes_counterexample:
  "map quote_id (final_quotes (run empty_db (revision_run @ [AcceptQuote 3, AcceptQuote 2])) 0 1) =
     [Some 2, Some 3] \<and>
   \<not> length (final_quotes (run empty_db (revision_run @ [AcceptQuote 3, AcceptQuote 2])) 0 1) \<le> 1"
  by code_simp

text \<open>
  C2, amended. In every database built by requests, at most one acknowledgement per
  purchase order is final. An accepting acknowledgement is final and accepted, every
  other acknowledgement of the order becomes \<^verbatim>\<open>superseded\<close> and not final, and the
  new one is the only final acknowledgement of the order. Accepting a quote makes it
  final and accepted and marks \<^verbatim>\<open>superseded\<close> every other quote of the same client
  and item that is not final; quotes that are final stay as they are.
\<close>

theorem one_final_acknowledgement:
  "length (final_acks (run empty_db rs) p) \<le> 1 \<and>
   (acknowledge_po (run empty_db rs) pid price action = Inr (res, s_ack) \<and>
    lower action = ''accepted'' \<longrightarrow>
      ack_is_final res \<and> ack_status res = ''accepted'' \<and>
      acknowledgements s_ack =
        map (\<lambda>a. if ack_po_id a = pid
                  then a\<lparr>ack_status := ''superseded'', ack_is_final := False\<rparr> else a)
            (acknowledgements (run empty_db rs)) @ [res] \<and>
      final_acks s_ack pid = [res]) \<and>
   (accept_quote t qid = Inr (ids, t_acc) \<and>
    find (\<lambda>q. quote_id q = Some qid) (quotes t) = Some quote \<longrightarrow>
      find (\<lambda>q. quote_id q = Some qid) (quotes t_acc) =
        Some (quote\<lparr>q_is_final := True, q_status := ''accepted''\<rparr>) \<and>
      (\<forall>q\<in>set (quotes t).
         q_client_id q = q_client_id quote \<and> q_item_id q = q_item_id quote \<and>
         \<not> q_is_final q \<and> quote_id q \<noteq> Some qid \<longrightarrow>
           q\<lparr>q_status := ''superseded''\<rparr> \<in> set (quotes t_acc)) \<and>
      (\<forall>q\<in>set (quotes t). q_is_final q \<longrightarrow> q \<in> set (quotes t_acc)))"
proof (intro conjI impI)
  show "length (final_acks (run empty_db rs) p) \<le> 1"
    using ack_inv_run[of rs] by (simp add: ack_inv_def)
next
  assume h: "acknowledge_po (run empty_db rs) pid price action = Inr (res, s_ack) \<and>
    lower action = ''accepted''"
  let ?s = "run empty_db rs"
  have ids: "\<forall>a\<in>set (acknowledgements ?s). ack_id a \<noteq> None"
    using ack_inv_run[of rs] by (simp add: ack_inv_def)
  from h acknowledge_po_Inr[of ?s pid price action res s_ack] have
    res: "ack_po_id res = pid" "ack_is_final res" "ack_status res = ''accepted''"
    and acks: "acknowledgements s_ack = map (supersede pid) (acknowledgements ?s) @ [res]"
    by (auto simp: supersede_def[abs_def])
  show "ack_is_final res" by (rule res)
  show "ack_status res = ''accepted''" by (rule res)
  have "map (supersede pid) (acknowledgements ?s) =
        map (\<lambda>a. if ack_po_id a = pid
                  then a\<lparr>ack_status := ''superseded'', ack_is_final := False\<rparr> else a)
            (acknowledgements ?s)"
    using ids by (auto simp: supersede_def)
  with acks show "acknowledgements s_ack =
        map (\<lambda>a. if ack_po_id a = pid
                  then a\<lparr>ack_status := ''superseded'', ack_is_final := False\<rparr> else a)
            (acknowledgements (run empty_db rs)) @ [res]"
    by simp
  show "final_acks s_ack pid = [res]"
    using ids res by (simp add: final_acks_def acks final_after_supersede_same)
next
  assume h: "accept_quote t qid = Inr (ids, t_acc) \<and>
    find (\<lambda>q. quote_id q = Some qid) (quotes t) = Some quote"
  let ?g = "\<lambda>q. if q_client_id q = q_client_id quote \<and> q_item_id q = q_item_id quote \<and>
                    q_is_final q = False \<and> quote_id q \<noteq> Some qid
                 then q\<lparr>q_status := ''superseded''\<rparr> else q"
  let ?f = "\<lambda>q. q\<lparr>q_is_final := True, q_status := ''accepted''\<rparr>"
  let ?P = "\<lambda>q. quote_id q = Some qid"
  from h accept_quote_Inr[of t qid ids t_acc] have
    qs: "quotes t_acc = modify_first ?P ?f (map ?g (quotes t))" and nf: "\<not> q_is_final quote"
    by auto
  from h have q: "find ?P (quotes t) = Some quote" by simp
  then have qid: "quote_id quote = Some qid" by (auto dest: find_SomeD)
  have fm: "find ?P (map ?g (quotes t)) = Some quote"
    using q qid by (simp add: find_map_preserved)
  show "find ?P (quotes t_acc) = Some (?f quote)"
    unfolding qs using fm by (simp add: find_modify_first_same)
  show "\<forall>q\<in>set (quotes t).
         q_client_id q = q_client_id quote \<and> q_item_id q = q_item_id quote \<and>
         \<not> q_is_final q \<and> quote_id q \<noteq> Some qid \<longrightarrow>
           q\<lparr>q_status := ''superseded''\<rparr> \<in> set (quotes t_acc)"
  proof (intro ballI impI)
    fix x assume x: "x \<in> set (quotes t)"
      and c: "q_client_id x = q_client_id quote \<and> q_item_id x = q_item_id quote \<and>
         \<not> q_is_final x \<and> quote_id x \<noteq> Some qid"
    from x have "?g x \<in> set (map ?g (quotes t))" by (rule in_set_mapI[of x "quotes t" ?g])
    with c have "x\<lparr>q_status := ''superseded''\<rparr> \<in> set (map ?g (quotes t))" by simp
    moreover from c have "\<not> ?P (x\<lparr>q_status := ''superseded''\<rparr>)" by simp
    ultimately show "x\<lparr>q_status := ''superseded''\<rparr> \<in> set (quotes t_acc)"
      unfolding qs by (rule in_set_modify_first_not)
  qed
  show "\<forall>q\<in>set (quotes t). q_is_final q \<longrightarrow> q \<in> set (quotes t_acc)"
  proof (intro ballI impI)
    fix x assume x: "x \<in> set (quotes t)" and f: "q_is_final x"
    from x have "?g x \<in> set (map ?g (quotes t))" by (rule in_set_mapI[of x "quotes t" ?g])
    with f have "x \<in> set (map ?g (quotes t))" by simp
    moreover from f nf have "x \<noteq> quote" by auto
    ultimately show "x \<in> set (quotes t_acc)"
      unfolding qs using fm by (intro in_set_modify_first_other[of x _ ?P quote ?f])
  qed
qed


theorem one_final_acknowledgement_witness:
  "length (final_acks (run empty_db negotiation_run) 2) \<le> 1 \<and>
   acknowledge_po (run empty_db (take 5 negotiation_run)) 2 (Some 9) ''Accepted'' =
     Inr (\<lparr>ack_id = Some 6, ack_po_id = 2, ack_final_price_per_item = Some 9,
            ack_status = ''accepted'', ack_is_final = True, ack_version = 3\<rparr>,
          run empty_db negotiation_run) \<and>
   lower ''Accepted'' = ''accepted'' \<and>
   final_acks (run empty_db negotiation_run) 2 =
     [\<lparr>ack_id = Some 6, ack_po_id = 2, ack_final_price_per_item = Some 9,
       ack_status = ''accepted'', ack_is_final = True, ack_version = 3\<rparr>] \<and>
   map ack_status (acknowledgements (run empty_db negotiation_run)) =
     [''superseded'', ''superseded'', ''accepted''] \<and>
   accept_quote (run empty_db (revision_run @ [AcceptQuote 3])) 2 =
     Inr ((Some 2, Some 6), step (run empty_db (revision_run @ [AcceptQuote 3])) (AcceptQuote 2)) \<and>
   find (\<lambda>q. quote_id q = Some 2) (quotes (run empty_db (revision_run @ [AcceptQuote 3]))) =
     Some \<lparr>quote_id = Some 2, q_client_id = 0, q_item_id = 1, order_qty = 10,
           q_final_price_per_item = 5, q_status = ''superseded'', q_version = 1,
           q_is_final = False, superseded_by = None\<rparr> \<and>
   find (\<lambda>q. quote_id q = Some 2)
     (quotes (step (run empty_db (revision_run @ [AcceptQuote 3])) (AcceptQuote 2))) =
     Some \<lparr>quote_id = Some 2, q_client_id = 0, q_item_id = 1, order_qty = 10,
           q_final_price_per_item = 5, q_status = ''accepted'', q_version = 1,
           q_is_final = True, superseded_by = None\<rparr> \<and>
   \<lparr>quote_id = Some 3, q_client_id = 0, q_item_id = 1, order_qty = 10,
     q_final_price_per_item = 4, q_status = ''accepted'', q_version = 2,
     q_is_final = True, superseded_by = None\<rparr>
     \<in> set (quotes (step (run empty_db (revision_run @ [AcceptQuote 3])) (AcceptQuote 2)))"
proof -
  let ?res = "\<lparr>ack_id = Some 6, ack_po_id = 2, ack_final_price_per_item = Some 9,
            ack_status = ''accepted'', ack_is_final = True, ack_version = 3\<rparr>"
  let ?t = "run empty_db (revision_run @ [AcceptQuote 3])"
  let ?old = "\<lparr>quote_id = Some 2, q_client_id = 0, q_item_id = 1, order_qty = 10,
           q_final_price_per_item = 5, q_status = ''superseded'', q_version = 1,
           q_is_final = False, superseded_by = None\<rparr>"
  let ?fin = "\<lparr>quote_id = Some 3, q_client_id = 0, q_item_id = 1, order_qty = 10,
     q_final_price_per_item = 4, q_status = ''accepted'', q_version = 2,
     q_is_final = True, superseded_by = None\<rparr>"
  have h1: "acknowledge_po (run empty_db (take 5 negotiation_run)) 2 (Some 9) ''Accepted'' =
     Inr (?res, run empty_db negotiation_run)" by code_simp
  have h2: "lower ''Accepted'' = ''accepted''" by code_simp
  have h3: "accept_quote ?t 2 = Inr ((Some 2, Some 6), step ?t (AcceptQuote 2))" by code_simp
  have h4: "find (\<lambda>q. quote_id q = Some 2) (quotes ?t) = Some ?old" by code_simp
  have h5: "?fin \<in> set (quotes ?t)" by code_simp
  have h6: "q_is_final ?fin" by simp
  have st: "map ack_status (acknowledgements (run empty_db negotiation_run)) =
     [''superseded'', ''superseded'', ''accepted'']" by code_simp
  note T = one_final_acknowledgement[of negotiation_run 2 2 "Some 9" "''Accepted''" ?res
      "run empty_db negotiation_run" ?t 2 "(Some 2, Some 6)" "step ?t (AcceptQuote 2)" ?old]
  note T' = one_final_acknowledgement[of "take 5 negotiation_run" 2 2 "Some 9" "''Accepted''" ?res
      "run empty_db negotiation_run" ?t 2 "(Some 2, Some 6)" "step ?t (AcceptQuote 2)" ?old]
  note Ta = T'[THEN conjunct2, THEN conjunct1, THEN mp, OF conjI[OF h1 h2]]
  note Tq = T[THEN conjunct2, THEN conjunct2, THEN mp, OF conjI[OF h3 h4]]
  have a: "length (final_acks (run empty_db negotiation_run) 2) \<le> 1"
    by (rule T[THEN conjunct1])
  have b: "final_acks (run empty_db negotiation_run) 2 = [?res]"
    by (rule Ta[THEN conjunct2, THEN conjunct2, THEN conjunct2])
  have c: "find (\<lambda>q. quote_id q = Some 2) (quotes (step ?t (AcceptQuote 2))) =
     Some (?old\<lparr>q_is_final := True, q_status := ''accepted''\<rparr>)"
    by (rule Tq[THEN conjunct1])
  have d: "?fin \<in> set (quotes (step ?t (AcceptQuote 2)))"
    by (rule Tq[THEN conjunct2, THEN conjunct2, THEN bspec, THEN mp, OF h5 h6])
  show ?thesis using a b c d h1 h2 h3 h4 st by (simp del: step.simps)
qed




text \<open>
  C6, as stated, fails where the addition has to round. The balance is a Decimal and
  each operation on it rounds to 28 significant digits. A supplier owes 10000000000000
  from an unpaid bill; the bill of a second order, 50 pieces at 0.33333333333333326,
  adds 16.666666666666663, and the sum, of 30 digits, is stored as
  10000000000016.66666666666666; paying that bill subtracts 16.666666666666663 again
  and leaves 9999999999999.999999999999997, not the balance before the bill.
\<close>

theorem bill_then_pay_rounding_counterexample:
  "supplier_balance (run empty_db rounding_run) 0 = Some 10000000000000 \<and>
   create_bill (run empty_db rounding_run) 7 =
     Inr (\<lparr>bill_id = Some 11, bill_po_id = 7, bill_ack_id = Some 9,
            bill_payment_status = ''pending'', payment_reference = None, paid_at = None\<rparr>,
          step (run empty_db rounding_run) (CreateBill 7)) \<and>
   supplier_balance (step (run empty_db rounding_run) (CreateBill 7)) 0 =
     Some (1000000000001666666666666666 / 100000000000000) \<and>
   map bill_payment_status
     (bills (step (step (run empty_db rounding_run) (CreateBill 7)) (PayBill 11 ''wire-2'' 9))) =
     [''pending'', ''paid''] \<and>
   supplier_balance
     (step (step (run empty_db rounding_run) (CreateBill 7)) (PayBill 11 ''wire-2'' 9)) 0 =
     Some (9999999999999999999999999997 / 1000000000000000) \<and>
   supplier_balance
     (step (step (run empty_db rounding_run) (CreateBill 7)) (PayBill 11 ''wire-2'' 9)) 0 \<noteq>
   supplier_balance (run empty_db rounding_run) 0"
  by code_simp

text \<open>
  C6, amended. In a database built by requests, when creating the bill of a purchase
  order succeeds, the balance of the supplier becomes the Decimal sum of the balance
  and the amount, the Decimal product of the ordered quantity and the price of the
  final acknowledgement, which the bill links; paying that bill then succeeds,
  computes the same amount from the order and the linked acknowledgement, and
  subtracts it. When the balance before the bill and its exact sum with the amount
  both have at most 28 significant digits, the balance of the supplier after the
  payment is what it was before the bill.
\<close>

theorem bill_then_pay_balance:
  "create_bill (run empty_db rs) pid = Inr (bill, s_bill) \<and>
   valid_BillPaymentRequest reference \<longrightarrow>
     (\<exists>bid po final_ack price balance.
        bill_id bill = Some bid \<and>
        find (\<lambda>p. po_id p = Some pid) (purchase_orders (run empty_db rs)) = Some po \<and>
        find (\<lambda>a. ack_po_id a = pid \<and> ack_is_final a = True)
          (acknowledgements (run empty_db rs)) = Some final_ack \<and>
        bill_ack_id bill = ack_id final_ack \<and>
        ack_final_price_per_item final_ack = Some price \<and>
        supplier_balance (run empty_db rs) (po_supplier_id po) = Some balance \<and>
        supplier_balance s_bill (po_supplier_id po) =
          Some (decimal_add balance (decimal_mul (of_int (po_qty_ordered po)) price)) \<and>
        (\<exists>paid s_paid.
           pay_bill s_bill bid reference now = Inr (paid, s_paid) \<and>
           bill_payment_status paid = ''paid'' \<and>
           supplier_balance s_paid (po_supplier_id po) =
             Some (decimal_sub
                     (decimal_add balance (decimal_mul (of_int (po_qty_ordered po)) price))
                     (decimal_mul (of_int (po_qty_ordered po)) price)) \<and>
           (round28 balance = balance \<and>
            round28 (balance + decimal_mul (of_int (po_qty_ordered po)) price) =
              balance + decimal_mul (of_int (po_qty_ordered po)) price \<longrightarrow>
              supplier_balance s_paid (po_supplier_id po) = Some balance)))"
proof
  let ?s = "run empty_db rs"
  assume h: "create_bill ?s pid = Inr (bill, s_bill) \<and> valid_BillPaymentRequest reference"
  from h create_bill_Inr[of ?s pid bill s_bill] obtain po final_ack supplier price where
    po: "find (\<lambda>p. po_id p = Some pid) (purchase_orders ?s) = Some po"
    and fa: "find (\<lambda>a. ack_po_id a = pid \<and> ack_is_final a = True) (acknowledgements ?s) = Some final_ack"
    and su: "find (\<lambda>x. supplier_id x = Some (po_supplier_id po)) (suppliers ?s) = Some supplier"
    and pr: "ack_final_price_per_item final_ack = Some price"
    and bill: "bill = \<lparr>bill_id = Some (next_uuid ?s), bill_po_id = pid, bill_ack_id = ack_id final_ack,
               bill_payment_status = ''pending'', payment_reference = None, paid_at = None\<rparr>"
    and sb: "s_bill = ?s\<lparr>suppliers :=
                 modify_first (\<lambda>x. supplier_id x = Some (po_supplier_id po))
                   (\<lambda>x. x\<lparr>supplier_account_balance :=
                             decimal_add (supplier_account_balance x)
                               (decimal_mul (of_int (po_qty_ordered po)) price)\<rparr>)
                   (suppliers ?s),
               bills := bills ?s @ [bill],
               next_uuid := next_uuid ?s + 1\<rparr>"
    by blast
  let ?amount = "decimal_mul (of_int (po_qty_ordered po)) price"
  let ?up = "\<lambda>x. x\<lparr>supplier_account_balance := decimal_add (supplier_account_balance x) ?amount\<rparr>"
  let ?down = "\<lambda>x. x\<lparr>supplier_account_balance := decimal_sub (supplier_account_balance x) ?amount\<rparr>"
  let ?P = "\<lambda>x. supplier_id x = Some (po_supplier_id po)"
  let ?b = "supplier_account_balance supplier"
  have inv: "bill_inv ?s" by (rule bill_inv_run)
  then have kb: "keys_below (next_uuid ?s) bill_id (bills ?s)"
    and d: "distinct (map ack_id (acknowledgements ?s))" by (simp_all add: bill_inv_def)
  have b1: "find (\<lambda>b. bill_id b = Some (next_uuid ?s)) (bills s_bill) = Some bill"
    using keys_below_find_None[OF kb, of "next_uuid ?s"]
    by (simp add: sb find_append_eq bill)
  have b2: "bill_payment_status bill \<noteq> ''paid''" by (simp add: bill)
  have b3: "find (\<lambda>p. po_id p = Some (bill_po_id bill)) (purchase_orders s_bill) = Some po"
    using po by (simp add: sb bill)
  have "final_ack \<in> set (acknowledgements ?s)" using fa by (auto dest: find_SomeD)
  from find_distinct_key[OF d this]
  have b4: "find (\<lambda>a. ack_id a = bill_ack_id bill) (acknowledgements s_bill) = Some final_ack"
    by (simp add: sb bill)
  have b5: "find ?P (suppliers s_bill) = Some (?up supplier)"
    using su by (simp add: sb find_modify_first_same)
  note pay = pay_bill_ok[OF conjunct2[OF h] b1 b2 b3 b4 pr b5, of now]
  have bal0: "supplier_balance ?s (po_supplier_id po) = Some ?b"
    using su by (simp add: supplier_balance_def)
  have bal1: "supplier_balance s_bill (po_supplier_id po) = Some (decimal_add ?b ?amount)"
    using b5 by (simp add: supplier_balance_def)
  have bal2: "find ?P (modify_first ?P ?down (suppliers s_bill)) = Some (?down (?up supplier))"
    using b5 by (simp add: find_modify_first_same)
  have exact: "decimal_sub (decimal_add ?b ?amount) ?amount = ?b"
    if "round28 ?b = ?b \<and> round28 (?b + ?amount) = ?b + ?amount"
    using that by (simp add: decimal_sub_def decimal_add_def)
  show "\<exists>bid po final_ack price balance.
        bill_id bill = Some bid \<and>
        find (\<lambda>p. po_id p = Some pid) (purchase_orders (run empty_db rs)) = Some po \<and>
        find (\<lambda>a. ack_po_id a = pid \<and> ack_is_final a = True)
          (acknowledgements (run empty_db rs)) = Some final_ack \<and>
        bill_ack_id bill = ack_id final_ack \<and>
        ack_final_price_per_item final_ack = Some price \<and>
        supplier_balance (run empty_db rs) (po_supplier_id po) = Some balance \<and>
        supplier_balance s_bill (po_supplier_id po) =
          Some (decimal_add balance (decimal_mul (of_int (po_qty_ordered po)) price)) \<and>
        (\<exists>paid s_paid.
           pay_bill s_bill bid reference now = Inr (paid, s_paid) \<and>
           bill_payment_status paid = ''paid'' \<and>
           supplier_balance s_paid (po_supplier_id po) =
             Some (decimal_sub
                     (decimal_add balance (decimal_mul (of_int (po_qty_ordered po)) price))
                     (decimal_mul (of_int (po_qty_ordered po)) price)) \<and>
           (round28 balance = balance \<and>
            round28 (balance + decimal_mul (of_int (po_qty_ordered po)) price) =
              balance + decimal_mul (of_int (po_qty_ordered po)) price \<longrightarrow>
              supplier_balance s_paid (po_supplier_id po) = Some balance))"
    apply (rule exI[of _ "next_uuid ?s"], rule exI[of _ po], rule exI[of _ final_ack],
           rule exI[of _ price], rule exI[of _ ?b])
    apply (intro conjI)
           apply (simp add: bill)
          apply (rule po)
         apply (rule fa)
        apply (simp add: bill)
       apply (rule pr)
      apply (rule bal0)
     apply (rule bal1)
    apply (intro exI conjI impI)
       apply (rule pay)
      apply simp
     apply (simp add: supplier_balance_def bal2)
    apply (simp add: supplier_balance_def bal2 exact)
    done
qed

theorem bill_then_pay_balance_witness:
  "create_bill (run empty_db received_run) 2 =
     Inr (\<lparr>bill_id = Some 6, bill_po_id = 2, bill_ack_id = Some 4,
            bill_payment_status = ''pending'', payment_reference = None, paid_at = None\<rparr>,
          step (run empty_db received_run) (CreateBill 2)) \<and>
   valid_BillPaymentRequest ''wire-1'' \<and>
   round28 0 = 0 \<and>
   round28 (0 + decimal_mul (of_int 50) 9) = 0 + decimal_mul (of_int 50) 9 \<and>
   supplier_balance (run empty_db received_run) 0 = Some 0 \<and>
   supplier_balance (step (run empty_db received_run) (CreateBill 2)) 0 = Some 450 \<and>
   supplier_balance
     (step (step (run empty_db received_run) (CreateBill 2)) (PayBill 6 ''wire-1'' 9)) 0 = Some 0"
proof -
  let ?s = "run empty_db received_run"
  let ?b = "\<lparr>bill_id = Some 6, bill_po_id = 2, bill_ack_id = Some 4,
            bill_payment_status = ''pending'', payment_reference = None, paid_at = None\<rparr>"
  let ?sb = "step ?s (CreateBill 2)"
  let ?order = "\<lparr>po_id = Some 2, po_supplier_id = 0, po_item_id = 1, po_qty_ordered = 50,
           po_final_price_per_item = Some 9, po_status = ''received''\<rparr>"
  let ?ack = "\<lparr>ack_id = Some 4, ack_po_id = 2, ack_final_price_per_item = Some 9,
           ack_status = ''accepted'', ack_is_final = True, ack_version = 1\<rparr>"
  have h1: "create_bill ?s 2 = Inr (?b, ?sb)" by code_simp
  have h2: "valid_BillPaymentRequest ''wire-1''" by code_simp
  have h3: "find (\<lambda>p. po_id p = Some 2) (purchase_orders ?s) = Some ?order" by code_simp
  have h4: "supplier_balance ?s 0 = Some 0" by code_simp
  have h5: "supplier_balance ?sb 0 = Some 450" by code_simp
  have h6: "find (\<lambda>a. ack_po_id a = 2 \<and> ack_is_final a = True) (acknowledgements ?s) = Some ?ack"
    by code_simp
  have h7: "round28 0 = 0" by (simp add: round28_def)
  have h8: "round28 (0 + decimal_mul (of_int 50) 9) = 0 + decimal_mul (of_int 50) 9"
    by code_simp
  from bill_then_pay_balance[of received_run 2 ?b ?sb "''wire-1''" 9] h1 h2
  obtain bid po final_ack price balance paid s_paid where
    f: "bill_id ?b = Some bid"
       "find (\<lambda>p. po_id p = Some 2) (purchase_orders ?s) = Some po"
       "find (\<lambda>a. ack_po_id a = 2 \<and> ack_is_final a = True) (acknowledgements ?s) = Some final_ack"
       "ack_final_price_per_item final_ack = Some price"
       "supplier_balance ?s (po_supplier_id po) = Some balance"
       "pay_bill ?sb bid ''wire-1'' 9 = Inr (paid, s_paid)"
    and g: "round28 balance = balance \<and>
            round28 (balance + decimal_mul (of_int (po_qty_ordered po)) price) =
              balance + decimal_mul (of_int (po_qty_ordered po)) price \<longrightarrow>
              supplier_balance s_paid (po_supplier_id po) = Some balance"
    by blast
  from f(1) have bid: "bid = 6" by simp
  from f(2) h3 have po: "po = ?order" by simp
  from f(3) h6 have "final_ack = ?ack" by simp
  with f(4) have price: "price = 9" by simp
  from f(5) h4 po have bal: "balance = 0" by simp
  from f(6) bid have st: "step ?sb (PayBill 6 ''wire-1'' 9) = s_paid" by simp
  from g po price bal h7 h8 have "supplier_balance s_paid 0 = Some 0" by simp
  with st have "supplier_balance (step ?sb (PayBill 6 ''wire-1'' 9)) 0 = Some 0" by simp
  with h1 h2 h4 h5 h7 h8 show ?thesis by (simp del: step.simps)
qed

text \<open>
  C7. In every database built by requests, the delivered quantities of a sales order
  sum to at most its ordered quantity, the order is \<^verbatim>\<open>delivered\<close> exactly when the
  sum equals the ordered quantity, and \<^verbatim>\<open>partially_delivered\<close> exactly when the sum
  is strictly between 0 and the ordered quantity. A delivery that would take the sum
  above the ordered quantity raises HTTP 400 and changes nothing.
\<close>

theorem delivered_total_and_status:
  "(find (\<lambda>x. so_id x = Some sid) (sales_orders (run empty_db rs)) = Some so \<longrightarrow>
      total_delivered (run empty_db rs) sid \<le> so_qty_ordered so \<and>
      (order_status so = ''delivered'') =
        (total_delivered (run empty_db rs) sid = so_qty_ordered so) \<and>
      (order_status so = ''partially_delivered'') =
        (0 < total_delivered (run empty_db rs) sid \<and>
         total_delivered (run empty_db rs) sid < so_qty_ordered so)) \<and>
   (valid_DeliveryOutboundRequest qty \<and>
    find (\<lambda>x. so_id x = Some oid) (sales_orders s) = Some ord \<and>
    so_qty_ordered ord < total_delivered s oid + qty \<longrightarrow>
      deliver_sales_order s oid date qty =
        Inl (HTTPException 400
              (if order_status ord = ''cancelled'' then ''Cancelled order cannot be delivered''
               else if order_status ord = ''delivered'' then ''Order already fully delivered''
               else ''Delivered quantity exceeds ordered quantity'')) \<and>
      step s (DeliverSalesOrder oid date qty) = s)"
proof (intro conjI impI)
  let ?s = "run empty_db rs"
  assume f: "find (\<lambda>x. so_id x = Some sid) (sales_orders ?s) = Some so"
  then have so: "so \<in> set (sales_orders ?s)" "so_id so = Some sid" by (auto dest: find_SomeD)
  with deliv_inv_run[of rs] have ok: "so_ok (total_delivered ?s sid) so"
    by (simp add: deliv_inv_def)
  from so qty_inv_run[of rs] have pos: "0 < so_qty_ordered so" by (simp add: qty_inv_def)
  from ok pos show "total_delivered ?s sid \<le> so_qty_ordered so"
    by (auto simp: so_ok_def)
  from ok pos show "(order_status so = ''delivered'') = (total_delivered ?s sid = so_qty_ordered so)"
    by (auto simp: so_ok_def)
  from ok pos show "(order_status so = ''partially_delivered'') =
        (0 < total_delivered ?s sid \<and> total_delivered ?s sid < so_qty_ordered so)"
    by (auto simp: so_ok_def)
next
  assume h: "valid_DeliveryOutboundRequest qty \<and>
    find (\<lambda>x. so_id x = Some oid) (sales_orders s) = Some ord \<and>
    so_qty_ordered ord < total_delivered s oid + qty"
  then show e: "deliver_sales_order s oid date qty =
        Inl (HTTPException 400
              (if order_status ord = ''cancelled'' then ''Cancelled order cannot be delivered''
               else if order_status ord = ''delivered'' then ''Order already fully delivered''
               else ''Delivered quantity exceeds ordered quantity''))"
    by (simp add: deliver_sales_order_def)
  then show "step s (DeliverSalesOrder oid date qty) = s" by simp
qed

theorem delivered_total_and_status_witness:
  "find (\<lambda>x. so_id x = Some 2) (sales_orders (run empty_db delivery_run)) =
     Some \<lparr>so_id = Some 2, so_client_id = 0, so_quote_id = None, so_item_id = 1,
           so_qty_ordered = 30, so_final_price_per_item = 5, order_status = ''delivered'',
           so_invoice_id = Some 3\<rparr> \<and>
   total_delivered (run empty_db delivery_run) 2 = 30 \<and>
   find (\<lambda>x. so_id x = Some 2) (sales_orders (run empty_db (take 4 delivery_run))) =
     Some \<lparr>so_id = Some 2, so_client_id = 0, so_quote_id = None, so_item_id = 1,
           so_qty_ordered = 30, so_final_price_per_item = 5,
           order_status = ''partially_delivered'', so_invoice_id = Some 3\<rparr> \<and>
   total_delivered (run empty_db (take 4 delivery_run)) 2 = 10 \<and>
   0 < total_delivered (run empty_db (take 4 delivery_run)) 2 \<and>
   total_delivered (run empty_db (take 4 delivery_run)) 2 < 30 \<and>
   valid_DeliveryOutboundRequest 21 \<and>
   deliver_sales_order (run empty_db (take 4 delivery_run)) 2 3 21 =
     Inl (HTTPException 400 ''Delivered quantity exceeds ordered quantity'') \<and>
   step (run empty_db (take 4 delivery_run)) (DeliverSalesOrder 2 3 21) =
     run empty_db (take 4 delivery_run)"
proof -
  let ?full = "\<lparr>so_id = Some 2, so_client_id = 0, so_quote_id = None, so_item_id = 1,
           so_qty_ordered = 30, so_final_price_per_item = 5, order_status = ''delivered'',
           so_invoice_id = Some 3\<rparr>"
  let ?part = "\<lparr>so_id = Some 2, so_client_id = 0, so_quote_id = None, so_item_id = 1,
           so_qty_ordered = 30, so_final_price_per_item = 5,
           order_status = ''partially_delivered'', so_invoice_id = Some 3\<rparr>"
  let ?t = "run empty_db (take 4 delivery_run)"
  have h1: "find (\<lambda>x. so_id x = Some 2) (sales_orders (run empty_db delivery_run)) = Some ?full"
    by code_simp
  have h2: "find (\<lambda>x. so_id x = Some 2) (sales_orders ?t) = Some ?part" by code_simp
  have h3: "total_delivered (run empty_db delivery_run) 2 = 30 \<and> total_delivered ?t 2 = 10 \<and>
    valid_DeliveryOutboundRequest 21"
    by code_simp
  show ?thesis
    using h1 h2 h3
      delivered_total_and_status[of 2 delivery_run ?full 21 2 ?t ?part 3]
      delivered_total_and_status[of 2 "take 4 delivery_run" ?part 21 2 ?t ?part 3]
    by (simp del: step.simps)
qed

end
